theory Spec2Isabelle
  imports Main "HOL-Library.AList"
begin

section \<open>The record store of server/index.js\<close>

text \<open>
  The server keeps its data in Mongoose collections. The model keeps the fields that
  the issue, claim and notification handlers read or write. A date is the number of
  milliseconds since the epoch (what \<^verbatim>\<open>Date.now()\<close> returns); every
  \<^verbatim>\<open>new Date()\<close> of one request is the request's time \<open>now\<close>.
  Left out of \<open>issue\<close>: location, attachments, claimUpdates and eventId, which
  none of the handlers below touches.
\<close>

record status_entry =
  se_status :: string
  se_date :: int
  se_by :: string

record update_entry =
  up_text :: string
  up_date :: int
  up_by :: string

record issue =
  title :: string
  description :: string
  category :: string
  status :: string
  reportedBy :: string
  reporterEmail :: "string option"
  reportedAt :: int
  verificationCount :: nat
  priority :: string
  statusHistory :: "status_entry list"
  updates :: "update_entry list"
  claimedByNGO :: string
  claimStatus :: string
  escalated :: bool

text \<open>
  An NGO document; its \<^verbatim>\<open>email\<close> is the key of the collection
  (\<^verbatim>\<open>unique: true\<close> in NGOSchema), so the collection is a map from email
  to document. The four counters are the \<^verbatim>\<open>impactStats\<close> sub-document.
\<close>

record ngo =
  ngo_name :: string
  issuesClaimed :: nat
  issuesSolved :: nat
  volunteerHours :: nat
  resourcesRaised :: nat

record profile =
  profile_email :: string
  fullName :: string
  notifyByEmail :: bool

text \<open>A message handed to \<^verbatim>\<open>mailer.sendMail\<close> (the text and html bodies are left out).\<close>

record mail =
  mail_to :: string
  mail_subject :: string

text \<open>
  The state a request runs against: the three collections, whether the SMTP transporter
  was configured at start-up (\<^verbatim>\<open>mailer\<close> is not null), and the messages that
  reached the transporter so far. Issues are kept in insertion order under their
  \<^verbatim>\<open>_id\<close>.
\<close>

record world =
  issues :: "(string \<times> issue) list"
  ngos :: "string \<rightharpoonup> ngo"
  profiles :: "profile list"
  mailer :: bool
  sent :: "mail list"

text \<open>
  How a request ends other than with the issue as JSON. \<open>NotFound m\<close> is the 404
  response \<^verbatim>\<open>{error: m}\<close>, \<open>Failed m\<close> the 500 response; \<open>CastError\<close> and
  \<open>ValidationError\<close> are the Mongoose exceptions that leave an async handler which has
  no try block around the call.
\<close>

datatype error = NotFound string | Failed string | CastError | ValidationError

subsection \<open>JavaScript's falsy strings\<close>

text \<open>
  A body field is \<open>None\<close> when the JSON body does not carry it. \<^verbatim>\<open>x || d\<close> and
  \<^verbatim>\<open>if (x)\<close> treat a missing field and the empty string alike.
\<close>

definition supplied :: "string option \<Rightarrow> string option" where
  "supplied x = (case x of None \<Rightarrow> None | Some s \<Rightarrow> if s = [] then None else Some s)"

definition str_or :: "string option \<Rightarrow> string \<Rightarrow> string" where
  "str_or x d = (case supplied x of None \<Rightarrow> d | Some s \<Rightarrow> s)"

subsection \<open>IssueSchema\<close>

definition status_enum :: "string list" where
  "status_enum = [''pending'', ''in-progress'', ''resolved'', ''rejected'', ''claimed'',
     ''community-in-progress'', ''solved'']"

definition priority_enum :: "string list" where
  "priority_enum = [''low'', ''medium'', ''high'']"

definition claimStatus_enum :: "string list" where
  "claimStatus_enum = [''none'', ''claimed'', ''community-in-progress'', ''solved'']"

text \<open>
  The validators of IssueSchema: title and description are required (a required string
  may not be empty), status, priority and claimStatus are checked against their enums.
  Mongoose runs them in \<^verbatim>\<open>Issue.create\<close> and in \<^verbatim>\<open>issue.save()\<close>, and
  does not run them in \<^verbatim>\<open>findByIdAndUpdate\<close> (no \<^verbatim>\<open>runValidators\<close>).
\<close>

definition IssueSchema_valid :: "issue \<Rightarrow> bool" where
  "IssueSchema_valid i \<longleftrightarrow>
     title i \<noteq> [] \<and> description i \<noteq> [] \<and>
     status i \<in> set status_enum \<and>
     priority i \<in> set priority_enum \<and>
     claimStatus i \<in> set claimStatus_enum"

subsection \<open>Model operations of Mongoose\<close>

text \<open>
  An \<^verbatim>\<open>_id\<close> is an ObjectId, written as 24 hexadecimal digits. Casting any
  other string of a route parameter fails with a CastError. (Older drivers also take a
  string of exactly 12 characters; no path segment used below has 12.)
\<close>

definition castObjectId :: "string \<Rightarrow> bool" where
  "castObjectId s \<longleftrightarrow>
     length s = 24 \<and> list_all (\<lambda>c. c \<in> set ''0123456789abcdefABCDEF'') s"

definition Issue_findById :: "string \<Rightarrow> world \<Rightarrow> error + issue option" where
  "Issue_findById iid w =
     (if castObjectId iid then Inr (map_of (issues w) iid) else Inl CastError)"

text \<open>
  \<^verbatim>\<open>Issue.findByIdAndUpdate(id, update, { new: true })\<close>: the update sets fields
  of the stored document, given here as a function on the document, and the updated
  document is returned; \<open>None\<close> is JavaScript's null for a missing document.
\<close>

definition Issue_findByIdAndUpdate ::
  "string \<Rightarrow> (issue \<Rightarrow> issue) \<Rightarrow> world \<Rightarrow> error + (issue \<times> world) option" where
  "Issue_findByIdAndUpdate iid upd w =
     (if \<not> castObjectId iid then Inl CastError
      else case map_of (issues w) iid of
        None \<Rightarrow> Inr None
      | Some i \<Rightarrow> Inr (Some (upd i, w\<lparr>issues := AList.update iid (upd i) (issues w)\<rparr>)))"

text \<open>
  \<^verbatim>\<open>issue.save()\<close> validates the document against IssueSchema and writes it under
  its \<^verbatim>\<open>_id\<close>; a document that fails is not written and the call throws. A
  failing connection to the database is not modelled.
\<close>

definition Issue_save :: "string \<Rightarrow> issue \<Rightarrow> world \<Rightarrow> error + world" where
  "Issue_save iid i w =
     (if IssueSchema_valid i then Inr (w\<lparr>issues := AList.update iid i (issues w)\<rparr>)
      else Inl ValidationError)"

text \<open>
  \<^verbatim>\<open>NGO.findOne({ email: ngoEmail })\<close>. A body without ngoEmail gives the filter
  the value undefined, which is modelled as matching no document (every NGO document has
  an email).
\<close>

definition NGO_findOne :: "string option \<Rightarrow> world \<Rightarrow> ngo option" where
  "NGO_findOne ngoEmail w = (case ngoEmail of None \<Rightarrow> None | Some e \<Rightarrow> ngos w e)"

text \<open>\<^verbatim>\<open>ngo.save()\<close> writes the document back under the email it was found by.\<close>

definition NGO_save :: "string option \<Rightarrow> ngo \<Rightarrow> world \<Rightarrow> world" where
  "NGO_save ngoEmail n w =
     (case ngoEmail of None \<Rightarrow> w | Some e \<Rightarrow> w\<lparr>ngos := (ngos w)(e \<mapsto> n)\<rparr>)"

text \<open>\<^verbatim>\<open>Profile.findOne({ email })\<close>: the first profile with that email.\<close>

definition Profile_findOne :: "string \<Rightarrow> world \<Rightarrow> profile option" where
  "Profile_findOne e w = List.find (\<lambda>p. profile_email p = e) (profiles w)"

section \<open>Notification\<close>

text \<open>
  \<^verbatim>\<open>sendEmail\<close>: without a transporter the call logs and returns; otherwise the
  message is handed to \<^verbatim>\<open>mailer.sendMail\<close>, whose failure is caught.
\<close>

definition sendEmail :: "string \<Rightarrow> string \<Rightarrow> world \<Rightarrow> world" where
  "sendEmail to subject w =
     (if \<not> mailer w then w
      else w\<lparr>sent := sent w @ [\<lparr>mail_to = to, mail_subject = subject\<rparr>]\<rparr>)"

text \<open>
  The block \<^verbatim>\<open>if (issue.reporterEmail) { ... }\<close> that the claim, NGO update,
  status and add-update handlers each carry, with the handler's subject line.
\<close>

definition notify_reporter :: "issue \<Rightarrow> string \<Rightarrow> world \<Rightarrow> world" where
  "notify_reporter i subject w =
     (case supplied (reporterEmail i) of
        None \<Rightarrow> w
      | Some e \<Rightarrow>
          (case Profile_findOne e w of
             None \<Rightarrow> sendEmail e subject w
           | Some p \<Rightarrow> if notifyByEmail p \<noteq> False then sendEmail e subject w else w))"

section \<open>The issue handlers\<close>

subsection \<open>GET /api/issues/:id and GET /api/issues/escalated\<close>

definition get_issue :: "string \<Rightarrow> world \<Rightarrow> error + issue" where
  "get_issue iid w =
     (case Issue_findById iid w of
        Inl e \<Rightarrow> Inl (Failed ''Failed to fetch issue'')
      | Inr None \<Rightarrow> Inl (NotFound ''Issue not found'')
      | Inr (Some i) \<Rightarrow> Inr i)"

definition tenDaysAgo :: "int \<Rightarrow> int" where
  "tenDaysAgo now = now - 10 * 24 * 60 * 60 * 1000"

definition get_escalated :: "int \<Rightarrow> world \<Rightarrow> issue list" where
  "get_escalated now w =
     filter (\<lambda>i. status i = ''pending'' \<and> reportedAt i \<le> tenDaysAgo now)
       (map snd (issues w))"

subsection \<open>POST /api/issues/:id/claim\<close>

text \<open>
  \<open>ngo\<close> is the string the body carries under that name; the handler stores it as it
  is, without looking it up.
\<close>

definition claim_issue :: "string \<Rightarrow> string \<Rightarrow> world \<Rightarrow> (error + issue) \<times> world" where
  "claim_issue iid ngo w =
     (case Issue_findByIdAndUpdate iid
             (\<lambda>i. i\<lparr>claimedByNGO := ngo, claimStatus := ''claimed'',
                    status := ''community-in-progress''\<rparr>) w of
        Inl e \<Rightarrow> (Inl e, w)
      | Inr None \<Rightarrow> (Inl (NotFound ''Issue not found''), w)
      | Inr (Some (i, w1)) \<Rightarrow>
          (Inr i,
           notify_reporter i
             (''Your report \"'' @ title i @ ''\" was adopted by '' @ ngo) w1))"

subsection \<open>POST /api/ngo/issues/:id/claim\<close>

text \<open>
  The NGO is looked up first, then the issue; the issue is saved before the NGO's counter
  is. The handler has no notification block.
\<close>

definition ngo_claim_issue ::
  "int \<Rightarrow> string \<Rightarrow> string option \<Rightarrow> world \<Rightarrow> (error + issue) \<times> world" where
  "ngo_claim_issue now iid ngoEmail w =
     (case NGO_findOne ngoEmail w of
        None \<Rightarrow> (Inl (NotFound ''NGO not found''), w)
      | Some n \<Rightarrow>
          (case Issue_findById iid w of
             Inl e \<Rightarrow> (Inl e, w)
           | Inr None \<Rightarrow> (Inl (NotFound ''Issue not found''), w)
           | Inr (Some i) \<Rightarrow>
               (let i1 = i\<lparr>claimedByNGO := ngo_name n, claimStatus := ''claimed'',
                             status := ''community-in-progress''\<rparr>;
                    i2 = i1\<lparr>statusHistory := statusHistory i1 @
                             [\<lparr>se_status = status i1, se_date = now, se_by = ngo_name n\<rparr>]\<rparr>
                in case Issue_save iid i2 w of
                     Inl e \<Rightarrow> (Inl e, w)
                   | Inr w1 \<Rightarrow>
                       (Inr i2,
                        NGO_save ngoEmail (n\<lparr>issuesClaimed := issuesClaimed n + 1\<rparr>) w1))))"

subsection \<open>POST /api/ngo/issues/:id/update\<close>

text \<open>
  A missing NGO does not stop the handler: the update is then attributed to the raw
  ngoEmail, or to \<^verbatim>\<open>ngo\<close>. The NGO's counter is saved inside the status
  branch, before the issue itself is saved.
\<close>

record ngo_update_body =
  nu_ngoEmail :: "string option"
  nu_text :: "string option"
  nu_status :: "string option"

definition ngo_update_issue ::
  "int \<Rightarrow> string \<Rightarrow> ngo_update_body \<Rightarrow> world \<Rightarrow> (error + issue) \<times> world" where
  "ngo_update_issue now iid b w =
     (let found = NGO_findOne (nu_ngoEmail b) w in
      case Issue_findById iid w of
        Inl e \<Rightarrow> (Inl e, w)
      | Inr None \<Rightarrow> (Inl (NotFound ''Issue not found''), w)
      | Inr (Some i) \<Rightarrow>
          (let actor = (case found of Some n \<Rightarrow> ngo_name n
                        | None \<Rightarrow> str_or (nu_ngoEmail b) ''ngo'');
               updateObj = \<lparr>up_text = str_or (nu_text b) [], up_date = now, up_by = actor\<rparr>;
               i1 = i\<lparr>updates := updates i @ [updateObj]\<rparr>;
               (i2, w1) =
                 (case supplied (nu_status b) of
                    None \<Rightarrow> (i1, w)
                  | Some s \<Rightarrow>
                      (i1\<lparr>statusHistory := statusHistory i1 @
                              [\<lparr>se_status = s, se_date = now, se_by = actor\<rparr>],
                           status := s\<rparr>,
                       if s = ''solved'' \<or> s = ''resolved''
                       then (case found of
                               Some n \<Rightarrow>
                                 NGO_save (nu_ngoEmail b)
                                   (n\<lparr>issuesSolved := issuesSolved n + 1\<rparr>) w
                             | None \<Rightarrow> w)
                       else w))
           in case Issue_save iid i2 w1 of
                Inl e \<Rightarrow> (Inl e, w1)
              | Inr w2 \<Rightarrow>
                  (Inr i2,
                   notify_reporter i2 (''Update on your report: '' @ title i2) w2)))"

subsection \<open>PUT /api/issues/:id/status\<close>

text \<open>
  The status is written by \<^verbatim>\<open>findByIdAndUpdate\<close>; the history entry is pushed on
  the returned document and saved inside a try block whose catch ignores the error, so
  the response carries the entry whether or not the save went through.
\<close>

definition put_issue_status ::
  "int \<Rightarrow> string \<Rightarrow> string \<Rightarrow> world \<Rightarrow> (error + issue) \<times> world" where
  "put_issue_status now iid s w =
     (case Issue_findByIdAndUpdate iid (\<lambda>i. i\<lparr>status := s\<rparr>) w of
        Inl e \<Rightarrow> (Inl e, w)
      | Inr None \<Rightarrow> (Inl (NotFound ''Issue not found''), w)
      | Inr (Some (i, w1)) \<Rightarrow>
          (let i1 = i\<lparr>statusHistory := statusHistory i @
                        [\<lparr>se_status = s, se_date = now, se_by = ''admin''\<rparr>]\<rparr>;
               w2 = (case Issue_save iid i1 w1 of Inl e \<Rightarrow> w1 | Inr w' \<Rightarrow> w')
           in (Inr i1,
               notify_reporter i1 (''Status update for your report: '' @ title i1) w2)))"

subsection \<open>POST /api/issues/:id/add-update\<close>

record add_update_body =
  au_text :: "string option"
  au_status :: "string option"
  au_by :: "string option"

definition add_update ::
  "int \<Rightarrow> string \<Rightarrow> add_update_body \<Rightarrow> world \<Rightarrow> (error + issue) \<times> world" where
  "add_update now iid b w =
     (let updateObj = \<lparr>up_text = str_or (au_text b) [], up_date = now,
                        up_by = str_or (au_by b) ''system''\<rparr>;
          statusEntry =
            (case supplied (au_status b) of
               None \<Rightarrow> None
             | Some s \<Rightarrow> Some \<lparr>se_status = s, se_date = now,
                                 se_by = str_or (au_by b) ''system''\<rparr>)
      in case Issue_findById iid w of
           Inl e \<Rightarrow> (Inl e, w)
         | Inr None \<Rightarrow> (Inl (NotFound ''Issue not found''), w)
         | Inr (Some i) \<Rightarrow>
             (let i1 = i\<lparr>updates := updates i @ [updateObj]\<rparr>;
                  i2 = (case statusEntry of
                          None \<Rightarrow> i1
                        | Some e \<Rightarrow> i1\<lparr>statusHistory := statusHistory i1 @ [e],
                                        status := se_status e\<rparr>)
              in case Issue_save iid i2 w of
                   Inl e \<Rightarrow> (Inl e, w)
                 | Inr w1 \<Rightarrow>
                     (Inr i2,
                      notify_reporter i2 (''Update on your report: '' @ title i2) w1)))"

subsection \<open>POST /api/issues\<close>

record create_body =
  b_title :: "string option"
  b_description :: "string option"
  b_category :: "string option"
  b_status :: "string option"
  b_reportedBy :: "string option"
  b_reporterEmail :: "string option"
  b_reportedAt :: "int option"
  b_verificationCount :: "nat option"
  b_priority :: "string option"
  b_statusHistory :: "status_entry list option"
  b_updates :: "update_entry list option"

text \<open>
  \<open>createPayload\<close> with the schema defaults for the fields the payload leaves out
  (claimedByNGO, claimStatus, escalated). A missing title or description is the empty
  string here; the required validator refuses both. The zero of a number is falsy.
\<close>

definition createPayload :: "int \<Rightarrow> create_body \<Rightarrow> issue" where
  "createPayload now body =
     \<lparr>title = (case b_title body of None \<Rightarrow> [] | Some t \<Rightarrow> t),
      description = (case b_description body of None \<Rightarrow> [] | Some d \<Rightarrow> d),
      category = str_or (b_category body) ''other'',
      status = str_or (b_status body) ''pending'',
      reportedBy = str_or (b_reportedBy body) ''anonymous'',
      reporterEmail = supplied (b_reporterEmail body),
      reportedAt = (case b_reportedAt body of None \<Rightarrow> now
                    | Some t \<Rightarrow> if t = 0 then now else t),
      verificationCount = (case b_verificationCount body of None \<Rightarrow> 0 | Some c \<Rightarrow> c),
      priority = str_or (b_priority body) ''medium'',
      statusHistory = (case b_statusHistory body of None \<Rightarrow> [] | Some h \<Rightarrow> h),
      updates = (case b_updates body of None \<Rightarrow> [] | Some u \<Rightarrow> u),
      claimedByNGO = [],
      claimStatus = ''none'',
      escalated = False\<rparr>"

text \<open>\<open>nid\<close> is the ObjectId that \<^verbatim>\<open>Issue.create\<close> gives the new document.\<close>

definition create_issue ::
  "string \<Rightarrow> int \<Rightarrow> create_body \<Rightarrow> world \<Rightarrow> (error + issue) \<times> world" where
  "create_issue nid now body w =
     (let i = createPayload now body
      in if IssueSchema_valid i then (Inr i, w\<lparr>issues := issues w @ [(nid, i)]\<rparr>)
         else (Inl ValidationError, w))"

subsection \<open>PUT /api/issues/:id\<close>

text \<open>
  The body is passed to \<^verbatim>\<open>findByIdAndUpdate\<close> as it is: every field of the
  schema that the body carries is set, the others are kept.
\<close>

record patch =
  p_title :: "string option"
  p_description :: "string option"
  p_category :: "string option"
  p_status :: "string option"
  p_reportedBy :: "string option"
  p_reporterEmail :: "string option"
  p_reportedAt :: "int option"
  p_verificationCount :: "nat option"
  p_priority :: "string option"
  p_statusHistory :: "status_entry list option"
  p_updates :: "update_entry list option"
  p_claimedByNGO :: "string option"
  p_claimStatus :: "string option"
  p_escalated :: "bool option"

definition set_field :: "'a option \<Rightarrow> 'a \<Rightarrow> 'a" where
  "set_field x old = (case x of None \<Rightarrow> old | Some v \<Rightarrow> v)"

definition apply_patch :: "patch \<Rightarrow> issue \<Rightarrow> issue" where
  "apply_patch p i =
     \<lparr>title = set_field (p_title p) (title i),
      description = set_field (p_description p) (description i),
      category = set_field (p_category p) (category i),
      status = set_field (p_status p) (status i),
      reportedBy = set_field (p_reportedBy p) (reportedBy i),
      reporterEmail = (case p_reporterEmail p of None \<Rightarrow> reporterEmail i | Some e \<Rightarrow> Some e),
      reportedAt = set_field (p_reportedAt p) (reportedAt i),
      verificationCount = set_field (p_verificationCount p) (verificationCount i),
      priority = set_field (p_priority p) (priority i),
      statusHistory = set_field (p_statusHistory p) (statusHistory i),
      updates = set_field (p_updates p) (updates i),
      claimedByNGO = set_field (p_claimedByNGO p) (claimedByNGO i),
      claimStatus = set_field (p_claimStatus p) (claimStatus i),
      escalated = set_field (p_escalated p) (escalated i)\<rparr>"

definition put_issue :: "string \<Rightarrow> patch \<Rightarrow> world \<Rightarrow> (error + issue) \<times> world" where
  "put_issue iid p w =
     (case Issue_findByIdAndUpdate iid (apply_patch p) w of
        Inl e \<Rightarrow> (Inl e, w)
      | Inr None \<Rightarrow> (Inl (NotFound ''Issue not found''), w)
      | Inr (Some (i, w1)) \<Rightarrow> (Inr i, w1))"

section \<open>Routing\<close>

text \<open>
  Express tries the routes in the order in which \<^verbatim>\<open>app.get\<close>,
  \<^verbatim>\<open>app.post\<close> and \<^verbatim>\<open>app.put\<close> registered them; the first route whose HTTP
  verb and path pattern match handles the request, and none of the handlers passes the
  request on. A path is its list of segments; \<^verbatim>\<open>:name\<close> matches any one
  non-empty segment.
\<close>

datatype verb = GET | POST | PUT

datatype seg = Lit string | Param string

datatype endpoint =
    Health | AuthSignup | AuthLogin | NgoAuthSignup | NgoAuthLogin
  | ListIssues | GetIssue | GetEscalated | ClaimIssue | NgoClaimIssue | NgoUpdateIssue
  | ClaimUpdate | PutIssueStatus | CreateEvent | ListEvents | Volunteer | Donate
  | GetNgo | FollowNgo | AddWishlist | DonateItem | NgoStats | CreateIssue | PutIssue
  | Attachments | AddUpdate | Escalate | Stats | GetProfile | PostProfile

definition routes :: "(verb \<times> seg list \<times> endpoint) list" where
  "routes =
    [(GET, [Lit ''health''], Health),
     (POST, [Lit ''api'', Lit ''auth'', Lit ''signup''], AuthSignup),
     (POST, [Lit ''api'', Lit ''auth'', Lit ''login''], AuthLogin),
     (POST, [Lit ''api'', Lit ''ngo'', Lit ''auth'', Lit ''signup''], NgoAuthSignup),
     (POST, [Lit ''api'', Lit ''ngo'', Lit ''auth'', Lit ''login''], NgoAuthLogin),
     (GET, [Lit ''api'', Lit ''issues''], ListIssues),
     (GET, [Lit ''api'', Lit ''issues'', Param ''id''], GetIssue),
     (GET, [Lit ''api'', Lit ''issues'', Lit ''escalated''], GetEscalated),
     (POST, [Lit ''api'', Lit ''issues'', Param ''id'', Lit ''claim''], ClaimIssue),
     (POST, [Lit ''api'', Lit ''ngo'', Lit ''issues'', Param ''id'', Lit ''claim''], NgoClaimIssue),
     (POST, [Lit ''api'', Lit ''ngo'', Lit ''issues'', Param ''id'', Lit ''update''], NgoUpdateIssue),
     (POST, [Lit ''api'', Lit ''issues'', Param ''id'', Lit ''claim-update''], ClaimUpdate),
     (PUT, [Lit ''api'', Lit ''issues'', Param ''id'', Lit ''status''], PutIssueStatus),
     (POST, [Lit ''api'', Lit ''events''], CreateEvent),
     (GET, [Lit ''api'', Lit ''events''], ListEvents),
     (POST, [Lit ''api'', Lit ''events'', Param ''id'', Lit ''volunteer''], Volunteer),
     (POST, [Lit ''api'', Lit ''events'', Param ''id'', Lit ''donate''], Donate),
     (GET, [Lit ''api'', Lit ''ngos'', Param ''email''], GetNgo),
     (POST, [Lit ''api'', Lit ''ngos'', Param ''email'', Lit ''follow''], FollowNgo),
     (POST, [Lit ''api'', Lit ''events'', Param ''id'', Lit ''wishlist''], AddWishlist),
     (POST, [Lit ''api'', Lit ''events'', Param ''id'', Lit ''donate-item''], DonateItem),
     (GET, [Lit ''api'', Lit ''ngos'', Param ''email'', Lit ''stats''], NgoStats),
     (POST, [Lit ''api'', Lit ''issues''], CreateIssue),
     (PUT, [Lit ''api'', Lit ''issues'', Param ''id''], PutIssue),
     (POST, [Lit ''api'', Lit ''issues'', Param ''id'', Lit ''attachments''], Attachments),
     (POST, [Lit ''api'', Lit ''issues'', Param ''id'', Lit ''add-update''], AddUpdate),
     (POST, [Lit ''api'', Lit ''issues'', Param ''id'', Lit ''escalate''], Escalate),
     (GET, [Lit ''api'', Lit ''stats''], Stats),
     (GET, [Lit ''api'', Lit ''profile''], GetProfile),
     (POST, [Lit ''api'', Lit ''profile''], PostProfile)]"

fun match_path :: "seg list \<Rightarrow> string list \<Rightarrow> (string \<times> string) list option" where
  "match_path [] [] = Some []"
| "match_path (Lit s # ps) (x # xs) = (if s = x then match_path ps xs else None)"
| "match_path (Param n # ps) (x # xs) =
     (if x = [] then None
      else (case match_path ps xs of None \<Rightarrow> None | Some params \<Rightarrow> Some ((n, x) # params)))"
| "match_path _ _ = None"

fun resolve ::
  "(verb \<times> seg list \<times> endpoint) list \<Rightarrow> verb \<Rightarrow> string list
     \<Rightarrow> (endpoint \<times> (string \<times> string) list) option" where
  "resolve [] m path = None"
| "resolve ((m', pat, e) # rs) m path =
     (if m' = m
      then (case match_path pat path of
              Some params \<Rightarrow> Some (e, params)
            | None \<Rightarrow> resolve rs m path)
      else resolve rs m path)"

datatype response =
    Json_issue issue
  | Json_issues "issue list"
  | Json_error nat string
  | Unhandled error
  | No_route
  | Other endpoint

fun respond :: "error + issue \<Rightarrow> response" where
  "respond (Inr i) = Json_issue i"
| "respond (Inl (NotFound m)) = Json_error 404 m"
| "respond (Inl (Failed m)) = Json_error 500 m"
| "respond (Inl e) = Unhandled e"

text \<open>
  A GET request: the two issue handlers modelled above are run, any other endpoint is
  only named.
\<close>

definition serve_get :: "int \<Rightarrow> world \<Rightarrow> string list \<Rightarrow> response" where
  "serve_get now w path =
     (case resolve routes GET path of
        None \<Rightarrow> No_route
      | Some (e, params) \<Rightarrow>
          if e = GetIssue
          then (case map_of params ''id'' of
                  None \<Rightarrow> No_route
                | Some iid \<Rightarrow> respond (get_issue iid w))
          else if e = GetEscalated then Json_issues (get_escalated now w)
          else Other e)"

section \<open>Sequences of requests\<close>

datatype request =
    Create string create_body
  | Claim string string
  | NgoClaim string "string option"
  | NgoUpdate string ngo_update_body
  | PutStatus string string
  | AddUpd string add_update_body
  | Put string patch

fun exec :: "int \<Rightarrow> request \<Rightarrow> world \<Rightarrow> world" where
  "exec now (Create nid body) w = snd (create_issue nid now body w)"
| "exec now (Claim iid ngo) w = snd (claim_issue iid ngo w)"
| "exec now (NgoClaim iid ngoEmail) w = snd (ngo_claim_issue now iid ngoEmail w)"
| "exec now (NgoUpdate iid b) w = snd (ngo_update_issue now iid b w)"
| "exec now (PutStatus iid s) w = snd (put_issue_status now iid s w)"
| "exec now (AddUpd iid b) w = snd (add_update now iid b w)"
| "exec now (Put iid p) w = snd (put_issue iid p w)"

text \<open>Requests served one after the other, each with the time it arrives at.\<close>

fun run :: "(int \<times> request) list \<Rightarrow> world \<Rightarrow> world" where
  "run [] w = w"
| "run ((now, r) # rs) w = run rs (exec now r w)"

section \<open>Properties named by the specification\<close>

text \<open>
  The claim invariant of the data model: claimedByNGO is non-empty if and only if
  claimStatus is not \<^verbatim>\<open>none\<close>.
\<close>

definition claim_inv :: "issue \<Rightarrow> bool" where
  "claim_inv i \<longleftrightarrow> (claimedByNGO i \<noteq> []) = (claimStatus i \<noteq> ''none'')"

definition all_claim_inv :: "world \<Rightarrow> bool" where
  "all_claim_inv w \<longleftrightarrow> list_all (\<lambda>kv. claim_inv (snd kv)) (issues w)"

text \<open>
  Requests that leave the two claim fields consistent: a claim through the plain endpoint
  must name the NGO, and a generic PUT must not carry claimedByNGO or claimStatus.
\<close>

fun claim_safe :: "request \<Rightarrow> bool" where
  "claim_safe (Claim iid ngo) = (ngo \<noteq> [])"
| "claim_safe (Put iid p) = (p_claimedByNGO p = None \<and> p_claimStatus p = None)"
| "claim_safe r = True"

text \<open>Every stored NGO has a name (NGOSchema requires it, and NGO signup refuses an empty one).\<close>

definition ngo_names_ok :: "world \<Rightarrow> bool" where
  "ngo_names_ok w \<longleftrightarrow> (\<forall>e n. ngos w e = Some n \<longrightarrow> ngo_name n \<noteq> [])"

text \<open>\<open>appended old new e\<close>: the history \<open>new\<close> is \<open>old\<close> with the one entry \<open>e\<close> added at its end.\<close>

definition appended :: "'a list \<Rightarrow> 'a list \<Rightarrow> 'a \<Rightarrow> bool" where
  "appended old new e \<longleftrightarrow> new = old @ [e]"

section \<open>Example data\<close>

definition id0 :: string where
  "id0 = ''507f1f77bcf86cd799439011''"

definition day :: int where
  "day = 24 * 60 * 60 * 1000"

definition issue0 :: issue where
  "issue0 =
     \<lparr>title = ''Pothole on Main St'', description = ''Deep pothole'', category = ''pothole'',
      status = ''pending'', reportedBy = ''Asha'', reporterEmail = Some ''a@x.com'',
      reportedAt = 0, verificationCount = 0, priority = ''medium'', statusHistory = [],
      updates = [], claimedByNGO = [], claimStatus = ''none'', escalated = False\<rparr>"

definition greencity :: ngo where
  "greencity =
     \<lparr>ngo_name = ''GreenCity'', issuesClaimed = 0, issuesSolved = 0, volunteerHours = 0,
      resourcesRaised = 0\<rparr>"

text \<open>
  One pending issue reported at time 0 by a@x.com, one NGO, no profile, and a configured
  transporter.
\<close>

definition world0 :: world where
  "world0 =
     \<lparr>issues = [(id0, issue0)], ngos = [''green@city.org'' \<mapsto> greencity], profiles = [],
      mailer = True, sent = []\<rparr>"

text \<open>What the two claim endpoints answer and leave behind in \<open>world0\<close>.\<close>

definition claimed0 :: issue where
  "claimed0 = issue0\<lparr>claimedByNGO := ''GreenCity'', claimStatus := ''claimed'',
                     status := ''community-in-progress''\<rparr>"

definition adopted_mail :: mail where
  "adopted_mail =
     \<lparr>mail_to = ''a@x.com'',
      mail_subject = ''Your report \"Pothole on Main St\" was adopted by GreenCity''\<rparr>"

definition ngo_claimed0 :: issue where
  "ngo_claimed0 =
     claimed0\<lparr>statusHistory :=
       [\<lparr>se_status = ''community-in-progress'', se_date = 5, se_by = ''GreenCity''\<rparr>]\<rparr>"

text \<open>The store after GreenCity has claimed the issue through the NGO endpoint at time 5.\<close>

definition world1 :: world where
  "world1 =
     world0\<lparr>issues := [(id0, ngo_claimed0)],
            ngos := [''green@city.org'' \<mapsto> greencity\<lparr>issuesClaimed := 1\<rparr>]\<rparr>"

definition solved_body :: ngo_update_body where
  "solved_body =
     \<lparr>nu_ngoEmail = Some ''green@city.org'', nu_text = Some ''Filled'',
      nu_status = Some ''solved''\<rparr>"

text \<open>
  The claimed issue after PUT /api/issues/:id with body \<^verbatim>\<open>{priority: "critical"}\<close>
  (a priority the schema's enum does not have), and the pending issue with a status the
  enum does not have.
\<close>

definition critical0 :: issue where
  "critical0 = ngo_claimed0\<lparr>priority := ''critical''\<rparr>"

definition world2 :: world where
  "world2 = world1\<lparr>issues := [(id0, critical0)]\<rparr>"

definition bogus0 :: issue where
  "bogus0 = issue0\<lparr>status := ''bogus''\<rparr>"

definition empty_world :: world where
  "empty_world = \<lparr>issues = [], ngos = Map.empty, profiles = [], mailer = True, sent = []\<rparr>"

definition body0 :: create_body where
  "body0 =
     \<lparr>b_title = Some ''Pothole on Main St'', b_description = Some ''Deep pothole'',
      b_category = None, b_status = None, b_reportedBy = None,
      b_reporterEmail = Some ''a@x.com'', b_reportedAt = None, b_verificationCount = None,
      b_priority = None, b_statusHistory = None, b_updates = None\<rparr>"

text \<open>A create request that brings its own status and history.\<close>

definition resolved_body :: create_body where
  "resolved_body =
     body0\<lparr>b_status := Some ''resolved'',
           b_statusHistory := Some [\<lparr>se_status = ''resolved'', se_date = 0, se_by = ''me''\<rparr>]\<rparr>"

definition created_resolved :: issue where
  "created_resolved =
     issue0\<lparr>category := ''other'', reportedBy := ''anonymous'', status := ''resolved'',
            statusHistory := [\<lparr>se_status = ''resolved'', se_date = 0, se_by = ''me''\<rparr>]\<rparr>"

definition no_patch :: patch where
  "no_patch =
     \<lparr>p_title = None, p_description = None, p_category = None, p_status = None,
      p_reportedBy = None, p_reporterEmail = None, p_reportedAt = None,
      p_verificationCount = None, p_priority = None, p_statusHistory = None,
      p_updates = None, p_claimedByNGO = None, p_claimStatus = None, p_escalated = None\<rparr>"

text \<open>
  A day in the life of an issue: reported, put in progress by the admin, claimed by
  GreenCity through the NGO endpoint, and reported solved by GreenCity.
\<close>

definition lifecycle :: "(int \<times> request) list" where
  "lifecycle =
     [(0, Create id0 body0), (3, PutStatus id0 ''in-progress''),
      (5, NgoClaim id0 (Some ''green@city.org'')), (9, NgoUpdate id0 solved_body)]"

section \<open>Basic facts about the model\<close>

lemma issues_sendEmail [simp]: "issues (sendEmail to subject w) = issues w"
  and ngos_sendEmail [simp]: "ngos (sendEmail to subject w) = ngos w"
  and profiles_sendEmail [simp]: "profiles (sendEmail to subject w) = profiles w"
  and mailer_sendEmail [simp]: "mailer (sendEmail to subject w) = mailer w"
  by (simp_all add: sendEmail_def)

lemma issues_notify [simp]: "issues (notify_reporter i subject w) = issues w"
  and ngos_notify [simp]: "ngos (notify_reporter i subject w) = ngos w"
  and profiles_notify [simp]: "profiles (notify_reporter i subject w) = profiles w"
  and mailer_notify [simp]: "mailer (notify_reporter i subject w) = mailer w"
  by (simp_all add: notify_reporter_def split: option.splits)

lemma issues_NGO_save [simp]: "issues (NGO_save e n w) = issues w"
  and sent_NGO_save [simp]: "sent (NGO_save e n w) = sent w"
  and profiles_NGO_save [simp]: "profiles (NGO_save e n w) = profiles w"
  and mailer_NGO_save [simp]: "mailer (NGO_save e n w) = mailer w"
  by (simp_all add: NGO_save_def split: option.splits)

lemma map_of_update_same [simp]: "map_of (AList.update k v al) k = Some v"
  by (simp add: update_conv')

lemma castObjectId_id0 [simp]: "castObjectId id0"
  by (simp add: castObjectId_def id0_def)

lemma IssueSchema_valid_issue0 [simp]: "IssueSchema_valid issue0"
  by (simp add: IssueSchema_valid_def issue0_def status_enum_def priority_enum_def
      claimStatus_enum_def)

lemma claim_issue_Inr:
  assumes "claim_issue iid ngo w = (Inr r, w')"
  obtains i where "castObjectId iid" and "map_of (issues w) iid = Some i"
    and "r = i\<lparr>claimedByNGO := ngo, claimStatus := ''claimed'', status := ''community-in-progress''\<rparr>"
    and "w' = notify_reporter r (''Your report \"'' @ title r @ ''\" was adopted by '' @ ngo)
                (w\<lparr>issues := AList.update iid r (issues w)\<rparr>)"
  using assms
  by (auto simp: claim_issue_def Issue_findByIdAndUpdate_def split: if_splits option.splits)

lemma ngo_claim_issue_Inr:
  assumes "ngo_claim_issue now iid ngoEmail w = (Inr r, w')"
  obtains n i where "NGO_findOne ngoEmail w = Some n" and "castObjectId iid"
    and "map_of (issues w) iid = Some i"
    and "r = i\<lparr>claimedByNGO := ngo_name n, claimStatus := ''claimed'',
               status := ''community-in-progress'',
               statusHistory := statusHistory i @
                 [\<lparr>se_status = ''community-in-progress'', se_date = now, se_by = ngo_name n\<rparr>]\<rparr>"
    and "IssueSchema_valid r"
    and "w' = NGO_save ngoEmail (n\<lparr>issuesClaimed := issuesClaimed n + 1\<rparr>)
                (w\<lparr>issues := AList.update iid r (issues w)\<rparr>)"
  using assms
  by (auto simp: ngo_claim_issue_def Issue_findById_def Issue_save_def Let_def
           split: if_splits option.splits sum.splits)

section \<open>The claim endpoints\<close>

text \<open>
  C1. A successful claim, through POST /api/issues/:id/claim or through
  POST /api/ngo/issues/:id/claim, answers with a record in which claimedByNGO is the
  claiming NGO's name (the body's \<^verbatim>\<open>ngo\<close> for the first endpoint, the name
  of the NGO found by ngoEmail for the second), claimStatus is \<^verbatim>\<open>claimed\<close> and
  status is \<^verbatim>\<open>community-in-progress\<close>, and that record is the stored document
  once the call has returned.
\<close>

theorem claim_sets_claim_fields:
  "(claim_issue iid ngo w = (Inr r, w') \<longrightarrow>
      claimedByNGO r = ngo \<and> claimStatus r = ''claimed'' \<and>
      status r = ''community-in-progress'' \<and> map_of (issues w') iid = Some r) \<and>
   (NGO_findOne ngoEmail w = Some n \<longrightarrow>
    ngo_claim_issue now iid ngoEmail w = (Inr r2, w2) \<longrightarrow>
      claimedByNGO r2 = ngo_name n \<and> claimStatus r2 = ''claimed'' \<and>
      status r2 = ''community-in-progress'' \<and> map_of (issues w2) iid = Some r2)"
proof (intro conjI impI)
  assume "claim_issue iid ngo w = (Inr r, w')"
  then obtain i where
    r: "r = i\<lparr>claimedByNGO := ngo, claimStatus := ''claimed'', status := ''community-in-progress''\<rparr>"
    and w': "w' = notify_reporter r (''Your report \"'' @ title r @ ''\" was adopted by '' @ ngo)
                (w\<lparr>issues := AList.update iid r (issues w)\<rparr>)"
    by (rule claim_issue_Inr)
  from r show "claimedByNGO r = ngo" by simp
  from r show "claimStatus r = ''claimed''" by simp
  from r show "status r = ''community-in-progress''" by simp
  from w' show "map_of (issues w') iid = Some r" by simp
next
  assume n: "NGO_findOne ngoEmail w = Some n"
    and a: "ngo_claim_issue now iid ngoEmail w = (Inr r2, w2)"
  from a obtain n' i where n': "NGO_findOne ngoEmail w = Some n'"
    and r: "r2 = i\<lparr>claimedByNGO := ngo_name n', claimStatus := ''claimed'',
               status := ''community-in-progress'',
               statusHistory := statusHistory i @
                 [\<lparr>se_status = ''community-in-progress'', se_date = now, se_by = ngo_name n'\<rparr>]\<rparr>"
    and w2: "w2 = NGO_save ngoEmail (n'\<lparr>issuesClaimed := issuesClaimed n' + 1\<rparr>)
                (w\<lparr>issues := AList.update iid r2 (issues w)\<rparr>)"
    by (rule ngo_claim_issue_Inr)
  from n n' have "n' = n" by simp
  with r show "claimedByNGO r2 = ngo_name n" by simp
  from r show "claimStatus r2 = ''claimed''" by simp
  from r show "status r2 = ''community-in-progress''" by simp
  from w2 show "map_of (issues w2) iid = Some r2" by simp
qed

lemma claim_issue_world0:
  "claim_issue id0 ''GreenCity'' world0 =
     (Inr claimed0, world0\<lparr>issues := [(id0, claimed0)], sent := [adopted_mail]\<rparr>)"
  by (simp add: claim_issue_def Issue_findByIdAndUpdate_def world0_def claimed0_def
      notify_reporter_def supplied_def Profile_findOne_def sendEmail_def adopted_mail_def
      issue0_def)

lemma ngo_claim_issue_world0:
  "ngo_claim_issue 5 id0 (Some ''green@city.org'') world0 =
     (Inr ngo_claimed0,
      world0\<lparr>issues := [(id0, ngo_claimed0)],
             ngos := [''green@city.org'' \<mapsto> greencity\<lparr>issuesClaimed := 1\<rparr>]\<rparr>)"
  by (simp add: ngo_claim_issue_def NGO_findOne_def Issue_findById_def Issue_save_def
      NGO_save_def world0_def ngo_claimed0_def claimed0_def Let_def IssueSchema_valid_def
      issue0_def status_enum_def priority_enum_def claimStatus_enum_def greencity_def)

theorem claim_sets_claim_fields_witness:
  "claim_issue id0 ''GreenCity'' world0 =
     (Inr claimed0, world0\<lparr>issues := [(id0, claimed0)], sent := [adopted_mail]\<rparr>) \<and>
   claimedByNGO claimed0 = ''GreenCity'' \<and> claimStatus claimed0 = ''claimed'' \<and>
   status claimed0 = ''community-in-progress'' \<and>
   NGO_findOne (Some ''green@city.org'') world0 = Some greencity \<and>
   ngo_claim_issue 5 id0 (Some ''green@city.org'') world0 =
     (Inr ngo_claimed0,
      world0\<lparr>issues := [(id0, ngo_claimed0)],
             ngos := [''green@city.org'' \<mapsto> greencity\<lparr>issuesClaimed := 1\<rparr>]\<rparr>) \<and>
   claimedByNGO ngo_claimed0 = ngo_name greencity \<and> claimStatus ngo_claimed0 = ''claimed'' \<and>
   status ngo_claimed0 = ''community-in-progress''"
proof -
  have n: "NGO_findOne (Some ''green@city.org'') world0 = Some greencity"
    by (simp add: NGO_findOne_def world0_def)
  from claim_sets_claim_fields [of id0 "''GreenCity''" world0 claimed0 _ "Some ''green@city.org''"
      greencity 5 ngo_claimed0] claim_issue_world0 ngo_claim_issue_world0 n
  show ?thesis by simp
qed

text \<open>
  C6. Each successful claim through POST /api/ngo/issues/:id/claim adds exactly 1 to
  the issuesClaimed counter of the NGO found by ngoEmail and leaves every other NGO
  document as it was; POST /api/issues/:id/claim leaves the whole NGO collection as it
  was, whatever the request and however it ends.
\<close>

theorem claim_counters_frame:
  "(NGO_findOne ngoEmail w = Some n \<longrightarrow>
    ngo_claim_issue now iid ngoEmail w = (Inr r, w') \<longrightarrow>
      NGO_findOne ngoEmail w' = Some (n\<lparr>issuesClaimed := issuesClaimed n + 1\<rparr>) \<and>
      (\<forall>e. Some e \<noteq> ngoEmail \<longrightarrow> ngos w' e = ngos w e)) \<and>
   ngos (snd (claim_issue iid ngo w)) = ngos w"
proof (intro conjI impI allI)
  assume n: "NGO_findOne ngoEmail w = Some n"
    and a: "ngo_claim_issue now iid ngoEmail w = (Inr r, w')"
  from a obtain n' where n': "NGO_findOne ngoEmail w = Some n'"
    and w': "w' = NGO_save ngoEmail (n'\<lparr>issuesClaimed := issuesClaimed n' + 1\<rparr>)
                (w\<lparr>issues := AList.update iid r (issues w)\<rparr>)"
    by (rule ngo_claim_issue_Inr)
  from n n' have [simp]: "n' = n" by simp
  from n obtain e where e: "ngoEmail = Some e" by (cases ngoEmail) (simp_all add: NGO_findOne_def)
  from w' e show "NGO_findOne ngoEmail w' = Some (n\<lparr>issuesClaimed := issuesClaimed n + 1\<rparr>)"
    by (simp add: NGO_findOne_def NGO_save_def)
  fix e' assume "Some e' \<noteq> ngoEmail"
  with w' e show "ngos w' e' = ngos w e'"
    by (simp add: NGO_save_def)
next
  show "ngos (snd (claim_issue iid ngo w)) = ngos w"
    by (simp add: claim_issue_def Issue_findByIdAndUpdate_def split: option.splits)
qed

theorem claim_counters_frame_witness:
  "NGO_findOne (Some ''green@city.org'') world0 = Some greencity \<and>
   ngo_claim_issue 5 id0 (Some ''green@city.org'') world0 =
     (Inr ngo_claimed0,
      world0\<lparr>issues := [(id0, ngo_claimed0)],
             ngos := [''green@city.org'' \<mapsto> greencity\<lparr>issuesClaimed := 1\<rparr>]\<rparr>) \<and>
   issuesClaimed greencity = 0 \<and>
   NGO_findOne (Some ''green@city.org'')
     (world0\<lparr>issues := [(id0, ngo_claimed0)],
             ngos := [''green@city.org'' \<mapsto> greencity\<lparr>issuesClaimed := 1\<rparr>]\<rparr>) =
     Some (greencity\<lparr>issuesClaimed := issuesClaimed greencity + 1\<rparr>) \<and>
   ngos (snd (claim_issue id0 ''GreenCity'' world0)) = ngos world0"
proof -
  have n: "NGO_findOne (Some ''green@city.org'') world0 = Some greencity"
    by (simp add: NGO_findOne_def world0_def)
  have z: "issuesClaimed greencity = 0"
    by (simp add: greencity_def)
  from claim_counters_frame [of "Some ''green@city.org''" world0 greencity 5 id0 ngo_claimed0
      _ "''GreenCity''"] ngo_claim_issue_world0 n z
  show ?thesis by simp
qed

text \<open>
  What the two endpoints do to statusHistory: the plain endpoint returns the history it
  found, the NGO endpoint returns it with one entry added, attributed to the NGO.
\<close>

lemma plain_claim_keeps_history:
  assumes "claim_issue iid ngo w = (Inr r, w')" and "map_of (issues w) iid = Some i"
  shows "statusHistory r = statusHistory i"
proof -
  from assms(1) obtain i' where "map_of (issues w) iid = Some i'"
    and "r = i'\<lparr>claimedByNGO := ngo, claimStatus := ''claimed'', status := ''community-in-progress''\<rparr>"
    by (rule claim_issue_Inr)
  with assms(2) show ?thesis by simp
qed

lemma ngo_claim_appends_history:
  assumes "ngo_claim_issue now iid ngoEmail w = (Inr r, w')"
    and "map_of (issues w) iid = Some i" and "NGO_findOne ngoEmail w = Some n"
  shows "appended (statusHistory i) (statusHistory r)
           \<lparr>se_status = ''community-in-progress'', se_date = now, se_by = ngo_name n\<rparr>"
proof -
  from assms(1) obtain n' i' where "NGO_findOne ngoEmail w = Some n'"
    and "map_of (issues w) iid = Some i'"
    and "r = i'\<lparr>claimedByNGO := ngo_name n', claimStatus := ''claimed'',
               status := ''community-in-progress'',
               statusHistory := statusHistory i' @
                 [\<lparr>se_status = ''community-in-progress'', se_date = now, se_by = ngo_name n'\<rparr>]\<rparr>"
    by (rule ngo_claim_issue_Inr)
  with assms(2,3) show ?thesis by (simp add: appended_def)
qed

text \<open>
  C3 as stated fails: POST /api/issues/:id/claim appends nothing. In \<open>world0\<close> it
  moves the issue from \<^verbatim>\<open>pending\<close> to \<^verbatim>\<open>community-in-progress\<close>
  and the history of the returned and stored record is still empty.
\<close>

theorem plain_claim_appends_nothing:
  "claim_issue id0 ''GreenCity'' world0 =
     (Inr claimed0, world0\<lparr>issues := [(id0, claimed0)], sent := [adopted_mail]\<rparr>) \<and>
   status issue0 = ''pending'' \<and> status claimed0 = ''community-in-progress'' \<and>
   statusHistory issue0 = [] \<and> statusHistory claimed0 = []"
  using claim_issue_world0 by (simp add: claimed0_def issue0_def)

text \<open>
  C3, amended. A successful claim through POST /api/ngo/issues/:id/claim appends to the
  issue's statusHistory one entry with status \<^verbatim>\<open>community-in-progress\<close>
  attributed to the claiming NGO's name, in the same call that sets claimedByNGO,
  claimStatus and status; a successful claim through POST /api/issues/:id/claim sets the
  three fields and leaves statusHistory as it was.
\<close>

theorem claim_history_by_endpoint:
  "(map_of (issues w) iid = Some i \<longrightarrow> NGO_findOne ngoEmail w = Some n \<longrightarrow>
    ngo_claim_issue now iid ngoEmail w = (Inr r, w') \<longrightarrow>
      statusHistory r = statusHistory i @
        [\<lparr>se_status = ''community-in-progress'', se_date = now, se_by = ngo_name n\<rparr>] \<and>
      claimedByNGO r = ngo_name n \<and> claimStatus r = ''claimed'' \<and>
      status r = ''community-in-progress'') \<and>
   (map_of (issues w) iid = Some i \<longrightarrow> claim_issue iid ngo w = (Inr r, w') \<longrightarrow>
      statusHistory r = statusHistory i)"
proof (intro conjI impI)
  assume i: "map_of (issues w) iid = Some i" and n: "NGO_findOne ngoEmail w = Some n"
    and a: "ngo_claim_issue now iid ngoEmail w = (Inr r, w')"
  from a i n have "appended (statusHistory i) (statusHistory r)
           \<lparr>se_status = ''community-in-progress'', se_date = now, se_by = ngo_name n\<rparr>"
    by (rule ngo_claim_appends_history)
  then show "statusHistory r = statusHistory i @
        [\<lparr>se_status = ''community-in-progress'', se_date = now, se_by = ngo_name n\<rparr>]"
    by (simp add: appended_def)
  from a obtain n' i' where n': "NGO_findOne ngoEmail w = Some n'"
    and r: "r = i'\<lparr>claimedByNGO := ngo_name n', claimStatus := ''claimed'',
               status := ''community-in-progress'',
               statusHistory := statusHistory i' @
                 [\<lparr>se_status = ''community-in-progress'', se_date = now, se_by = ngo_name n'\<rparr>]\<rparr>"
    by (rule ngo_claim_issue_Inr)
  from n n' have "n' = n" by simp
  with r show "claimedByNGO r = ngo_name n" by simp
  from r show "claimStatus r = ''claimed''" by simp
  from r show "status r = ''community-in-progress''" by simp
next
  assume i: "map_of (issues w) iid = Some i" and a: "claim_issue iid ngo w = (Inr r, w')"
  from a i show "statusHistory r = statusHistory i"
    by (rule plain_claim_keeps_history)
qed

theorem claim_history_by_endpoint_witness:
  "map_of (issues world0) id0 = Some issue0 \<and> statusHistory issue0 = [] \<and>
   NGO_findOne (Some ''green@city.org'') world0 = Some greencity \<and>
   ngo_name greencity = ''GreenCity'' \<and>
   ngo_claim_issue 5 id0 (Some ''green@city.org'') world0 =
     (Inr ngo_claimed0,
      world0\<lparr>issues := [(id0, ngo_claimed0)],
             ngos := [''green@city.org'' \<mapsto> greencity\<lparr>issuesClaimed := 1\<rparr>]\<rparr>) \<and>
   statusHistory ngo_claimed0 =
     [\<lparr>se_status = ''community-in-progress'', se_date = 5, se_by = ''GreenCity''\<rparr>] \<and>
   claim_issue id0 ''GreenCity'' world0 =
     (Inr claimed0, world0\<lparr>issues := [(id0, claimed0)], sent := [adopted_mail]\<rparr>) \<and>
   statusHistory claimed0 = []"
proof -
  have i: "map_of (issues world0) id0 = Some issue0"
    by (simp add: world0_def)
  have h: "statusHistory issue0 = []"
    by (simp add: issue0_def)
  have n: "NGO_findOne (Some ''green@city.org'') world0 = Some greencity"
    by (simp add: NGO_findOne_def world0_def)
  have g: "ngo_name greencity = ''GreenCity''"
    by (simp add: greencity_def)
  note t = claim_history_by_endpoint [of world0 id0 issue0 "Some ''green@city.org''" greencity 5]
  from t [of ngo_claimed0 _ "''GreenCity''"] i n ngo_claim_issue_world0 h g
  have 1: "statusHistory ngo_claimed0 =
     [\<lparr>se_status = ''community-in-progress'', se_date = 5, se_by = ''GreenCity''\<rparr>]"
    by simp
  from t [of claimed0 _ "''GreenCity''"] i claim_issue_world0 h
  have 2: "statusHistory claimed0 = []"
    by simp
  from i h n g ngo_claim_issue_world0 claim_issue_world0 1 2 show ?thesis by simp
qed

section \<open>Notification of the reporter\<close>

text \<open>
  The notification block: a reporter who opted out gets nothing; otherwise, with a
  configured transporter, exactly one message goes to the reporter's address, and without
  a transporter sendEmail returns before reaching it. The plain claim endpoint runs the
  block (and so do the status, add-update and NGO update endpoints, see below); the NGO
  claim endpoint has no such block and never sends.
\<close>

lemma sent_notify_issues [simp]:
  "sent (notify_reporter i subject (w\<lparr>issues := x\<rparr>)) = sent (notify_reporter i subject w)"
  by (simp add: notify_reporter_def sendEmail_def Profile_findOne_def split: option.splits)

lemma notify_opted_out:
  assumes "Profile_findOne e w = Some p" and "notifyByEmail p = False"
    and "supplied (reporterEmail i) = Some e"
  shows "sent (notify_reporter i subject w) = sent w"
  using assms by (simp add: notify_reporter_def)

lemma notify_sends:
  assumes "supplied (reporterEmail i) = Some e"
    and "Profile_findOne e w = None \<or> (\<exists>p. Profile_findOne e w = Some p \<and> notifyByEmail p)"
    and "mailer w"
  shows "sent (notify_reporter i subject w) = sent w @ [\<lparr>mail_to = e, mail_subject = subject\<rparr>]"
  using assms by (auto simp: notify_reporter_def sendEmail_def)

lemma notify_no_transport:
  assumes "\<not> mailer w"
  shows "sent (notify_reporter i subject w) = sent w"
  using assms by (simp add: notify_reporter_def sendEmail_def split: option.splits)

lemma sent_notify_cong:
  assumes "profiles w' = profiles w" and "mailer w' = mailer w" and "sent w' = sent w"
  shows "sent (notify_reporter i subject w') = sent (notify_reporter i subject w)"
  using assms
  by (simp add: notify_reporter_def sendEmail_def Profile_findOne_def split: option.splits)

lemma claim_issue_notifies:
  assumes "claim_issue iid ngo w = (Inr r, w')"
  shows "sent w' =
    sent (notify_reporter r (''Your report \"'' @ title r @ ''\" was adopted by '' @ ngo) w)"
proof -
  from assms obtain i where
    "w' = notify_reporter r (''Your report \"'' @ title r @ ''\" was adopted by '' @ ngo)
                (w\<lparr>issues := AList.update iid r (issues w)\<rparr>)"
    by (rule claim_issue_Inr)
  then show ?thesis by simp
qed

lemma ngo_claim_never_notifies:
  "sent (snd (ngo_claim_issue now iid ngoEmail w)) = sent w"
  by (simp add: ngo_claim_issue_def Issue_findById_def Issue_save_def Let_def
      split: option.splits)

text \<open>
  C9. The claim says that every status-affecting operation, claims included, attempts a
  send when the reporter has no profile or has notifyByEmail true. POST
  /api/ngo/issues/:id/claim does not: in \<open>world0\<close> the transporter is configured,
  the issue has a reporter email without a profile, the claim succeeds, and nothing is
  sent.
\<close>

theorem ngo_claim_sends_nothing:
  "mailer world0 \<and> sent world0 = [] \<and> map_of (issues world0) id0 = Some issue0 \<and>
   reporterEmail issue0 = Some ''a@x.com'' \<and> Profile_findOne ''a@x.com'' world0 = None \<and>
   fst (ngo_claim_issue 5 id0 (Some ''green@city.org'') world0) = Inr ngo_claimed0 \<and>
   sent (snd (ngo_claim_issue 5 id0 (Some ''green@city.org'') world0)) = []"
  using ngo_claim_issue_world0
  by (simp add: world0_def issue0_def Profile_findOne_def)

section \<open>Escalation\<close>

text \<open>
  The handler of GET /api/issues/escalated, taken by itself, returns the pending issues
  reported at least ten days before now. It is registered after GET /api/issues/:id,
  whose pattern also matches the path /api/issues/escalated.
\<close>

lemma set_get_escalated:
  "set (get_escalated now w) =
     {i \<in> snd ` set (issues w). status i = ''pending'' \<and> reportedAt i \<le> now - 10 * day}"
  by (auto simp: get_escalated_def tenDaysAgo_def day_def)

lemma resolve_escalated:
  "resolve routes GET [''api'', ''issues'', ''escalated''] = Some (GetIssue, [(''id'', ''escalated'')])"
  by (simp add: routes_def)

lemma get_escalated_world0:
  "get_escalated (11 * day) world0 = [issue0]"
  by (simp add: get_escalated_def tenDaysAgo_def day_def world0_def issue0_def)

text \<open>
  The three issues named by the specification: reported 11 days ago and pending, reported
  9 days ago and pending, reported 11 days ago and resolved. The handler keeps the first.
\<close>

lemma get_escalated_examples:
  "get_escalated (11 * day)
     (world0\<lparr>issues := [(id0, issue0),
                         (''507f1f77bcf86cd799439012'', issue0\<lparr>reportedAt := 2 * day\<rparr>),
                         (''507f1f77bcf86cd799439013'', issue0\<lparr>status := ''resolved''\<rparr>)]\<rparr>) =
   [issue0]"
  by (simp add: get_escalated_def tenDaysAgo_def day_def issue0_def)

text \<open>
  C2. The claim says that GET /api/issues/escalated returns the pending issues older than
  ten days. The request never reaches that handler: it is served by GET /api/issues/:id
  with id \<^verbatim>\<open>escalated\<close>, the cast to ObjectId fails, and the answer is the
  500 response of that handler's catch block, for every store and every time.
\<close>

theorem escalated_route_shadowed:
  "serve_get now w [''api'', ''issues'', ''escalated''] = Json_error 500 ''Failed to fetch issue''"
  by (simp add: serve_get_def resolve_escalated get_issue_def Issue_findById_def
      castObjectId_def)

section \<open>Status changes\<close>

text \<open>What a successful call of each of the three status-changing handlers returns.\<close>

lemma put_issue_status_Inr:
  assumes "put_issue_status now iid s w = (Inr r, w')"
  obtains i where "castObjectId iid" and "map_of (issues w) iid = Some i"
    and "r = i\<lparr>status := s, statusHistory := statusHistory i @
                 [\<lparr>se_status = s, se_date = now, se_by = ''admin''\<rparr>]\<rparr>"
    and "issues w' = AList.update iid (if IssueSchema_valid r then r else i\<lparr>status := s\<rparr>) (issues w)"
  using assms
  by (auto simp: put_issue_status_def Issue_findByIdAndUpdate_def Issue_save_def Let_def
      update_last split: if_splits option.splits)

lemma add_update_Inr:
  assumes "add_update now iid b w = (Inr r, w')"
  obtains i where "castObjectId iid" and "map_of (issues w) iid = Some i"
    and "updates r = updates i @ [\<lparr>up_text = str_or (au_text b) [], up_date = now,
                                   up_by = str_or (au_by b) ''system''\<rparr>]"
    and "status r = (case supplied (au_status b) of None \<Rightarrow> status i | Some s \<Rightarrow> s)"
    and "statusHistory r = (case supplied (au_status b) of None \<Rightarrow> statusHistory i
           | Some s \<Rightarrow> statusHistory i @
               [\<lparr>se_status = s, se_date = now, se_by = str_or (au_by b) ''system''\<rparr>])"
    and "IssueSchema_valid r"
    and "w' = notify_reporter r (''Update on your report: '' @ title r)
                (w\<lparr>issues := AList.update iid r (issues w)\<rparr>)"
  using assms
  by (auto simp: add_update_def Issue_findById_def Issue_save_def Let_def
      split: if_splits option.splits)

lemma ngo_update_issue_Inr:
  assumes "ngo_update_issue now iid b w = (Inr r, w')"
  obtains i actor where "castObjectId iid" and "map_of (issues w) iid = Some i"
    and "actor = (case NGO_findOne (nu_ngoEmail b) w of Some n \<Rightarrow> ngo_name n
                  | None \<Rightarrow> str_or (nu_ngoEmail b) ''ngo'')"
    and "updates r = updates i @ [\<lparr>up_text = str_or (nu_text b) [], up_date = now, up_by = actor\<rparr>]"
    and "status r = (case supplied (nu_status b) of None \<Rightarrow> status i | Some s \<Rightarrow> s)"
    and "statusHistory r = (case supplied (nu_status b) of None \<Rightarrow> statusHistory i
           | Some s \<Rightarrow> statusHistory i @ [\<lparr>se_status = s, se_date = now, se_by = actor\<rparr>])"
    and "IssueSchema_valid r"
    and "map_of (issues w') iid = Some r"
  using assms
  by (auto simp: ngo_update_issue_def Issue_findById_def Issue_save_def Let_def
      split: if_splits option.splits prod.splits)

text \<open>
  All three run the notification block on the record they answer with, as the plain claim
  endpoint does.
\<close>

lemma put_issue_status_notifies:
  assumes "put_issue_status now iid s w = (Inr r, w')"
  shows "sent w' = sent (notify_reporter r (''Status update for your report: '' @ title r) w)"
  using assms
  by (auto simp: put_issue_status_def Issue_findByIdAndUpdate_def Issue_save_def Let_def
      intro!: sent_notify_cong split: if_splits option.splits)

lemma add_update_notifies:
  assumes "add_update now iid b w = (Inr r, w')"
  shows "sent w' = sent (notify_reporter r (''Update on your report: '' @ title r) w)"
proof -
  from assms obtain i where
    "w' = notify_reporter r (''Update on your report: '' @ title r)
                (w\<lparr>issues := AList.update iid r (issues w)\<rparr>)"
    by (rule add_update_Inr)
  then show ?thesis by simp
qed

lemma ngo_update_issue_notifies:
  assumes "ngo_update_issue now iid b w = (Inr r, w')"
  shows "sent w' = sent (notify_reporter r (''Update on your report: '' @ title r) w)"
  using assms
  by (auto simp: ngo_update_issue_def Issue_findById_def Issue_save_def Let_def
      intro!: sent_notify_cong split: if_splits option.splits prod.splits)

text \<open>
  When the calls succeed: the status endpoint answers with the record for every existing
  issue; add-update and the NGO update save the document, so the stored issue and the
  requested status must pass the schema's validators.
\<close>

lemma put_issue_status_succeeds:
  assumes "castObjectId iid" and "map_of (issues w) iid = Some i"
  shows "fst (put_issue_status now iid s w) =
     Inr (i\<lparr>status := s, statusHistory := statusHistory i @
            [\<lparr>se_status = s, se_date = now, se_by = ''admin''\<rparr>]\<rparr>)"
  using assms by (simp add: put_issue_status_def Issue_findByIdAndUpdate_def Let_def)

lemma add_update_succeeds:
  assumes "castObjectId iid" and "map_of (issues w) iid = Some i" and "IssueSchema_valid i"
    and "supplied (au_status b) = Some s" and "s \<in> set status_enum"
  shows "\<exists>r w'. add_update now iid b w = (Inr r, w')"
  using assms
  by (simp add: add_update_def Issue_findById_def Issue_save_def Let_def IssueSchema_valid_def)

lemma ngo_update_issue_succeeds:
  assumes "castObjectId iid" and "map_of (issues w) iid = Some i" and "IssueSchema_valid i"
    and "supplied (nu_status b) = None \<or> (\<exists>s. supplied (nu_status b) = Some s \<and> s \<in> set status_enum)"
  shows "\<exists>r w'. ngo_update_issue now iid b w = (Inr r, w')"
  using assms
  by (auto simp: ngo_update_issue_def Issue_findById_def Issue_save_def Let_def
      IssueSchema_valid_def split: option.splits)

lemmas example_defs =
  world0_def world1_def issue0_def claimed0_def ngo_claimed0_def greencity_def solved_body_def
  IssueSchema_valid_def status_enum_def priority_enum_def claimStatus_enum_def
  supplied_def str_or_def Issue_findById_def Issue_findByIdAndUpdate_def Issue_save_def
  NGO_findOne_def NGO_save_def Profile_findOne_def notify_reporter_def sendEmail_def

text \<open>
  The record a status change answers with: whenever one of the three handlers answers
  with a record, its statusHistory is the old history plus one entry with the requested
  status. For add-update and the NGO update the record is also the stored document; for
  the status endpoint it is only when the record passes the schema's validators (the
  save of the history entry sits in a try block whose catch ignores the error).
\<close>

lemma status_change_answer:
  "(map_of (issues w) iid = Some i \<longrightarrow> put_issue_status now iid s w = (Inr r, w') \<longrightarrow>
      length (statusHistory r) = length (statusHistory i) + 1 \<and>
      se_status (last (statusHistory r)) = s \<and> butlast (statusHistory r) = statusHistory i \<and>
      (IssueSchema_valid r \<longrightarrow> map_of (issues w') iid = Some r)) \<and>
   (map_of (issues w) iid = Some i \<longrightarrow> supplied (au_status b) = Some s \<longrightarrow>
    add_update now iid b w = (Inr r, w') \<longrightarrow>
      length (statusHistory r) = length (statusHistory i) + 1 \<and>
      se_status (last (statusHistory r)) = s \<and> butlast (statusHistory r) = statusHistory i \<and>
      map_of (issues w') iid = Some r) \<and>
   (map_of (issues w) iid = Some i \<longrightarrow> supplied (nu_status c) = Some s \<longrightarrow>
    ngo_update_issue now iid c w = (Inr r, w') \<longrightarrow>
      length (statusHistory r) = length (statusHistory i) + 1 \<and>
      se_status (last (statusHistory r)) = s \<and> butlast (statusHistory r) = statusHistory i \<and>
      map_of (issues w') iid = Some r)"
proof (intro conjI impI)
  assume i: "map_of (issues w) iid = Some i"
    and a: "put_issue_status now iid s w = (Inr r, w')"
  from a obtain i' where i': "map_of (issues w) iid = Some i'"
    and r: "r = i'\<lparr>status := s, statusHistory := statusHistory i' @
                 [\<lparr>se_status = s, se_date = now, se_by = ''admin''\<rparr>]\<rparr>"
    and w': "issues w' = AList.update iid (if IssueSchema_valid r then r else i'\<lparr>status := s\<rparr>) (issues w)"
    by (rule put_issue_status_Inr)
  from i i' have [simp]: "i' = i" by simp
  from r show "length (statusHistory r) = length (statusHistory i) + 1" by simp
  from r show "se_status (last (statusHistory r)) = s" by simp
  from r show "butlast (statusHistory r) = statusHistory i" by simp
  assume "IssueSchema_valid r"
  with w' show "map_of (issues w') iid = Some r" by simp
next
  assume i: "map_of (issues w) iid = Some i" and s: "supplied (au_status b) = Some s"
    and a: "add_update now iid b w = (Inr r, w')"
  from a obtain i' where i': "map_of (issues w) iid = Some i'"
    and h: "statusHistory r = (case supplied (au_status b) of None \<Rightarrow> statusHistory i'
           | Some s \<Rightarrow> statusHistory i' @
               [\<lparr>se_status = s, se_date = now, se_by = str_or (au_by b) ''system''\<rparr>])"
    and w': "w' = notify_reporter r (''Update on your report: '' @ title r)
                (w\<lparr>issues := AList.update iid r (issues w)\<rparr>)"
    by (rule add_update_Inr)
  from i i' have [simp]: "i' = i" by simp
  from h s show "length (statusHistory r) = length (statusHistory i) + 1" by simp
  from h s show "se_status (last (statusHistory r)) = s" by simp
  from h s show "butlast (statusHistory r) = statusHistory i" by simp
  from w' show "map_of (issues w') iid = Some r" by simp
next
  assume i: "map_of (issues w) iid = Some i" and s: "supplied (nu_status c) = Some s"
    and a: "ngo_update_issue now iid c w = (Inr r, w')"
  from a obtain i' actor where i': "map_of (issues w) iid = Some i'"
    and h: "statusHistory r = (case supplied (nu_status c) of None \<Rightarrow> statusHistory i'
           | Some s \<Rightarrow> statusHistory i' @ [\<lparr>se_status = s, se_date = now, se_by = actor\<rparr>])"
    and w': "map_of (issues w') iid = Some r"
    by (rule ngo_update_issue_Inr)
  from i i' have [simp]: "i' = i" by simp
  from h s show "length (statusHistory r) = length (statusHistory i) + 1" by simp
  from h s show "se_status (last (statusHistory r)) = s" by simp
  from h s show "butlast (statusHistory r) = statusHistory i" by simp
  from w' show "map_of (issues w') iid = Some r" by simp
qed

lemma status_change_answer_example:
  "map_of (issues world0) id0 = Some issue0 \<and> statusHistory issue0 = [] \<and>
   fst (put_issue_status 7 id0 ''in-progress'' world0) =
     Inr (issue0\<lparr>status := ''in-progress'',
           statusHistory := [\<lparr>se_status = ''in-progress'', se_date = 7, se_by = ''admin''\<rparr>]\<rparr>) \<and>
   map_of (issues (snd (put_issue_status 7 id0 ''in-progress'' world0))) id0 =
     Some (issue0\<lparr>status := ''in-progress'',
           statusHistory := [\<lparr>se_status = ''in-progress'', se_date = 7, se_by = ''admin''\<rparr>]\<rparr>) \<and>
   fst (add_update 7 id0 \<lparr>au_text = Some ''Crew sent'', au_status = Some ''in-progress'',
                            au_by = Some ''admin''\<rparr> world0) =
     Inr (issue0\<lparr>status := ''in-progress'',
           statusHistory := [\<lparr>se_status = ''in-progress'', se_date = 7, se_by = ''admin''\<rparr>],
           updates := [\<lparr>up_text = ''Crew sent'', up_date = 7, up_by = ''admin''\<rparr>]\<rparr>) \<and>
   fst (ngo_update_issue 7 id0 solved_body world0) =
     Inr (issue0\<lparr>status := ''solved'',
           statusHistory := [\<lparr>se_status = ''solved'', se_date = 7, se_by = ''GreenCity''\<rparr>],
           updates := [\<lparr>up_text = ''Filled'', up_date = 7, up_by = ''GreenCity''\<rparr>]\<rparr>)"
proof -
  let ?b = "\<lparr>au_text = Some ''Crew sent'', au_status = Some ''in-progress'', au_by = Some ''admin''\<rparr>"
  let ?r1 = "issue0\<lparr>status := ''in-progress'',
           statusHistory := [\<lparr>se_status = ''in-progress'', se_date = 7, se_by = ''admin''\<rparr>]\<rparr>"
  let ?r2 = "issue0\<lparr>status := ''in-progress'',
           statusHistory := [\<lparr>se_status = ''in-progress'', se_date = 7, se_by = ''admin''\<rparr>],
           updates := [\<lparr>up_text = ''Crew sent'', up_date = 7, up_by = ''admin''\<rparr>]\<rparr>"
  let ?r3 = "issue0\<lparr>status := ''solved'',
           statusHistory := [\<lparr>se_status = ''solved'', se_date = 7, se_by = ''GreenCity''\<rparr>],
           updates := [\<lparr>up_text = ''Filled'', up_date = 7, up_by = ''GreenCity''\<rparr>]\<rparr>"
  have i: "map_of (issues world0) id0 = Some issue0"
    by (simp add: world0_def)
  have h: "statusHistory issue0 = []"
    by (simp add: issue0_def)
  have v: "IssueSchema_valid ?r1"
    by (simp add: example_defs)
  have f1: "fst (put_issue_status 7 id0 ''in-progress'' world0) = Inr ?r1"
    by (simp add: put_issue_status_succeeds [OF castObjectId_id0 i] h)
  have f2: "fst (add_update 7 id0 ?b world0) = Inr ?r2"
    by (simp add: add_update_def Let_def example_defs)
  have f3: "fst (ngo_update_issue 7 id0 solved_body world0) = Inr ?r3"
    by (simp add: ngo_update_issue_def Let_def example_defs)
  have e1: "put_issue_status 7 id0 ''in-progress'' world0 =
      (Inr ?r1, snd (put_issue_status 7 id0 ''in-progress'' world0))"
    using f1 by (simp add: prod_eq_iff)
  have s2: "supplied (au_status ?b) = Some ''in-progress''"
    by (simp add: supplied_def)
  have s3: "supplied (nu_status solved_body) = Some ''solved''"
    by (simp add: supplied_def solved_body_def)
  note t = status_change_answer [of world0 id0 issue0 7 "''in-progress''" ?r1
      "snd (put_issue_status 7 id0 ''in-progress'' world0)"]
  from t i e1 v
  have "map_of (issues (snd (put_issue_status 7 id0 ''in-progress'' world0))) id0 = Some ?r1"
    by blast
  with i h f1 f2 f3 show ?thesis by simp
qed

text \<open>
  C4 as stated fails. PUT /api/issues/:id/status with status \<^verbatim>\<open>bogus\<close> on the
  pending issue of \<open>world0\<close> answers with a record that has the new entry, but what
  is stored is the status \<^verbatim>\<open>bogus\<close> with the history still empty:
  \<^verbatim>\<open>findByIdAndUpdate\<close> runs no validators, and the save of the entry is refused
  and the error ignored.
\<close>

theorem status_change_counterexample:
  "map_of (issues world0) id0 = Some issue0 \<and> statusHistory issue0 = [] \<and>
   fst (put_issue_status 7 id0 ''bogus'' world0) =
     Inr (bogus0\<lparr>statusHistory := [\<lparr>se_status = ''bogus'', se_date = 7, se_by = ''admin''\<rparr>]\<rparr>) \<and>
   map_of (issues (snd (put_issue_status 7 id0 ''bogus'' world0))) id0 = Some bogus0 \<and>
   status bogus0 = ''bogus'' \<and> statusHistory bogus0 = []"
  by (simp add: put_issue_status_def Let_def bogus0_def example_defs)

text \<open>
  The same status through add-update is refused by the save and changes nothing. In
  general the status endpoint stores the status alone whenever the issue with that status
  does not pass the validators.
\<close>

lemma add_update_refuses_bogus:
  "add_update 7 id0 \<lparr>au_text = None, au_status = Some ''bogus'', au_by = None\<rparr> world0 =
     (Inl ValidationError, world0)"
  by (simp add: add_update_def Let_def example_defs)

lemma put_issue_status_invalid_keeps_stored_history:
  assumes "castObjectId iid" and "map_of (issues w) iid = Some i"
    and "\<not> IssueSchema_valid (i\<lparr>status := s\<rparr>)"
  shows "map_of (issues (snd (put_issue_status now iid s w))) iid = Some (i\<lparr>status := s\<rparr>)"
proof -
  from assms(3) have "\<not> IssueSchema_valid (i\<lparr>status := s, statusHistory := statusHistory i @
      [\<lparr>se_status = s, se_date = now, se_by = ''admin''\<rparr>]\<rparr>)"
    by (simp add: IssueSchema_valid_def)
  with assms(1,2) show ?thesis
    by (simp add: put_issue_status_def Issue_findByIdAndUpdate_def Issue_save_def Let_def)
qed

text \<open>
  C4, amended. For every existing issue and every requested status such that the issue
  with that status passes the schema's validators (the status is one of the enum, and
  the stored title, description, priority and claimStatus are valid), each status-change
  call (PUT /api/issues/:id/status, and POST /api/issues/:id/add-update or POST
  /api/ngo/issues/:id/update with that status supplied) succeeds, and the statusHistory
  of the returned record, which is also the stored document, is the history before the
  call plus one entry whose status is the requested status: its length is the old length
  plus 1.
\<close>

theorem status_change_stored_history:
  assumes "castObjectId iid" and "map_of (issues w) iid = Some i"
    and "IssueSchema_valid (i\<lparr>status := s\<rparr>)"
  shows
    "(\<exists>r w'. put_issue_status now iid s w = (Inr r, w') \<and>
        statusHistory r = statusHistory i @ [\<lparr>se_status = s, se_date = now, se_by = ''admin''\<rparr>] \<and>
        length (statusHistory r) = length (statusHistory i) + 1 \<and>
        se_status (last (statusHistory r)) = s \<and> status r = s \<and>
        map_of (issues w') iid = Some r) \<and>
     (supplied (au_status b) = Some s \<longrightarrow>
      (\<exists>r w'. add_update now iid b w = (Inr r, w') \<and>
        statusHistory r = statusHistory i @
          [\<lparr>se_status = s, se_date = now, se_by = str_or (au_by b) ''system''\<rparr>] \<and>
        length (statusHistory r) = length (statusHistory i) + 1 \<and>
        se_status (last (statusHistory r)) = s \<and> status r = s \<and>
        map_of (issues w') iid = Some r)) \<and>
     (supplied (nu_status c) = Some s \<longrightarrow>
      (\<exists>r w'. ngo_update_issue now iid c w = (Inr r, w') \<and>
        statusHistory r = statusHistory i @
          [\<lparr>se_status = s, se_date = now,
            se_by = (case NGO_findOne (nu_ngoEmail c) w of Some n \<Rightarrow> ngo_name n
                     | None \<Rightarrow> str_or (nu_ngoEmail c) ''ngo'')\<rparr>] \<and>
        length (statusHistory r) = length (statusHistory i) + 1 \<and>
        se_status (last (statusHistory r)) = s \<and> status r = s \<and>
        map_of (issues w') iid = Some r))"
proof (intro conjI impI)
  let ?r = "i\<lparr>status := s, statusHistory := statusHistory i @
              [\<lparr>se_status = s, se_date = now, se_by = ''admin''\<rparr>]\<rparr>"
  from assms(3) have v: "IssueSchema_valid ?r"
    by (simp add: IssueSchema_valid_def)
  from assms(1,2) have f: "fst (put_issue_status now iid s w) = Inr ?r"
    by (rule put_issue_status_succeeds)
  then have e: "put_issue_status now iid s w = (Inr ?r, snd (put_issue_status now iid s w))"
    by (simp add: prod_eq_iff)
  from e obtain i' where "issues (snd (put_issue_status now iid s w)) =
      AList.update iid (if IssueSchema_valid ?r then ?r else i'\<lparr>status := s\<rparr>) (issues w)"
    by (rule put_issue_status_Inr)
  with v have "map_of (issues (snd (put_issue_status now iid s w))) iid = Some ?r"
    by simp
  with e show "\<exists>r w'. put_issue_status now iid s w = (Inr r, w') \<and>
        statusHistory r = statusHistory i @ [\<lparr>se_status = s, se_date = now, se_by = ''admin''\<rparr>] \<and>
        length (statusHistory r) = length (statusHistory i) + 1 \<and>
        se_status (last (statusHistory r)) = s \<and> status r = s \<and>
        map_of (issues w') iid = Some r"
    by (intro exI [of _ ?r] exI [of _ "snd (put_issue_status now iid s w)"]) simp
next
  assume s: "supplied (au_status b) = Some s"
  let ?r = "i\<lparr>updates := updates i @ [\<lparr>up_text = str_or (au_text b) [], up_date = now,
                                        up_by = str_or (au_by b) ''system''\<rparr>],
              statusHistory := statusHistory i @
                [\<lparr>se_status = s, se_date = now, se_by = str_or (au_by b) ''system''\<rparr>],
              status := s\<rparr>"
  from assms(3) have v: "IssueSchema_valid ?r"
    by (simp add: IssueSchema_valid_def)
  let ?w = "notify_reporter ?r (''Update on your report: '' @ title ?r)
              (w\<lparr>issues := AList.update iid ?r (issues w)\<rparr>)"
  from assms(1,2) s v have "add_update now iid b w = (Inr ?r, ?w)"
    by (simp add: add_update_def Issue_findById_def Issue_save_def Let_def)
  then show "\<exists>r w'. add_update now iid b w = (Inr r, w') \<and>
        statusHistory r = statusHistory i @
          [\<lparr>se_status = s, se_date = now, se_by = str_or (au_by b) ''system''\<rparr>] \<and>
        length (statusHistory r) = length (statusHistory i) + 1 \<and>
        se_status (last (statusHistory r)) = s \<and> status r = s \<and>
        map_of (issues w') iid = Some r"
    by (intro exI [of _ ?r] exI [of _ ?w]) simp
next
  assume s: "supplied (nu_status c) = Some s"
  let ?actor = "(case NGO_findOne (nu_ngoEmail c) w of Some n \<Rightarrow> ngo_name n
                     | None \<Rightarrow> str_or (nu_ngoEmail c) ''ngo'')"
  let ?r = "i\<lparr>updates := updates i @ [\<lparr>up_text = str_or (nu_text c) [], up_date = now,
                                        up_by = ?actor\<rparr>],
              statusHistory := statusHistory i @
                [\<lparr>se_status = s, se_date = now, se_by = ?actor\<rparr>],
              status := s\<rparr>"
  from assms(3) have v: "IssueSchema_valid ?r"
    by (simp add: IssueSchema_valid_def)
  from assms(1,2) s v have f: "fst (ngo_update_issue now iid c w) = Inr ?r"
    by (auto simp: ngo_update_issue_def Issue_findById_def Issue_save_def Let_def
        split: option.splits)
  then have e: "ngo_update_issue now iid c w = (Inr ?r, snd (ngo_update_issue now iid c w))"
    by (simp add: prod_eq_iff)
  from e obtain i' actor where "map_of (issues (snd (ngo_update_issue now iid c w))) iid = Some ?r"
    by (rule ngo_update_issue_Inr)
  with e show "\<exists>r w'. ngo_update_issue now iid c w = (Inr r, w') \<and>
        statusHistory r = statusHistory i @
          [\<lparr>se_status = s, se_date = now, se_by = ?actor\<rparr>] \<and>
        length (statusHistory r) = length (statusHistory i) + 1 \<and>
        se_status (last (statusHistory r)) = s \<and> status r = s \<and>
        map_of (issues w') iid = Some r"
    by (intro exI [of _ ?r] exI [of _ "snd (ngo_update_issue now iid c w)"]) simp
qed

theorem status_change_stored_history_witness:
  "castObjectId id0 \<and> map_of (issues world1) id0 = Some ngo_claimed0 \<and>
   IssueSchema_valid (ngo_claimed0\<lparr>status := ''solved''\<rparr>) \<and>
   statusHistory ngo_claimed0 =
     [\<lparr>se_status = ''community-in-progress'', se_date = 5, se_by = ''GreenCity''\<rparr>] \<and>
   supplied (Some ''solved'') = Some ''solved'' \<and>
   (\<exists>r w'. put_issue_status 9 id0 ''solved'' world1 = (Inr r, w') \<and>
      statusHistory r =
        [\<lparr>se_status = ''community-in-progress'', se_date = 5, se_by = ''GreenCity''\<rparr>,
         \<lparr>se_status = ''solved'', se_date = 9, se_by = ''admin''\<rparr>] \<and>
      map_of (issues w') id0 = Some r) \<and>
   (\<exists>r w'. add_update 9 id0
              \<lparr>au_text = Some ''Done'', au_status = Some ''solved'', au_by = Some ''admin''\<rparr>
              world1 = (Inr r, w') \<and>
      statusHistory r =
        [\<lparr>se_status = ''community-in-progress'', se_date = 5, se_by = ''GreenCity''\<rparr>,
         \<lparr>se_status = ''solved'', se_date = 9, se_by = ''admin''\<rparr>] \<and>
      map_of (issues w') id0 = Some r) \<and>
   (\<exists>r w'. ngo_update_issue 9 id0 solved_body world1 = (Inr r, w') \<and>
      statusHistory r =
        [\<lparr>se_status = ''community-in-progress'', se_date = 5, se_by = ''GreenCity''\<rparr>,
         \<lparr>se_status = ''solved'', se_date = 9, se_by = ''GreenCity''\<rparr>] \<and>
      map_of (issues w') id0 = Some r)"
proof -
  let ?b = "\<lparr>au_text = Some ''Done'', au_status = Some ''solved'', au_by = Some ''admin''\<rparr>"
  have c: "castObjectId id0" by simp
  have i: "map_of (issues world1) id0 = Some ngo_claimed0"
    by (simp add: world1_def)
  have v: "IssueSchema_valid (ngo_claimed0\<lparr>status := ''solved''\<rparr>)"
    by (simp add: example_defs)
  have h: "statusHistory ngo_claimed0 =
     [\<lparr>se_status = ''community-in-progress'', se_date = 5, se_by = ''GreenCity''\<rparr>]"
    by (simp add: ngo_claimed0_def)
  have s: "supplied (Some ''solved'') = Some ''solved''"
    by (simp add: supplied_def)
  have sb: "supplied (au_status ?b) = Some ''solved''"
    by (simp add: supplied_def)
  have sc: "supplied (nu_status solved_body) = Some ''solved''"
    by (simp add: supplied_def solved_body_def)
  have n: "NGO_findOne (nu_ngoEmail solved_body) world1 = Some (greencity\<lparr>issuesClaimed := 1\<rparr>)"
    by (simp add: NGO_findOne_def solved_body_def world1_def)
  have a: "str_or (au_by ?b) ''system'' = ''admin''"
    by (simp add: str_or_def supplied_def)
  have g: "ngo_name greencity = ''GreenCity''"
    by (simp add: greencity_def)
  note t = status_change_stored_history [OF c i v, of 9 ?b solved_body]
  from t [THEN conjunct1] have 1: "\<exists>r w'. put_issue_status 9 id0 ''solved'' world1 = (Inr r, w') \<and>
      statusHistory r =
        [\<lparr>se_status = ''community-in-progress'', se_date = 5, se_by = ''GreenCity''\<rparr>,
         \<lparr>se_status = ''solved'', se_date = 9, se_by = ''admin''\<rparr>] \<and>
      map_of (issues w') id0 = Some r"
    by (auto simp: h)
  from t [THEN conjunct2, THEN conjunct1, rule_format, OF sb]
  have 2: "\<exists>r w'. add_update 9 id0 ?b world1 = (Inr r, w') \<and>
      statusHistory r =
        [\<lparr>se_status = ''community-in-progress'', se_date = 5, se_by = ''GreenCity''\<rparr>,
         \<lparr>se_status = ''solved'', se_date = 9, se_by = ''admin''\<rparr>] \<and>
      map_of (issues w') id0 = Some r"
    by (auto simp: h str_or_def supplied_def)
  from t [THEN conjunct2, THEN conjunct2, rule_format, OF sc]
  have 3: "\<exists>r w'. ngo_update_issue 9 id0 solved_body world1 = (Inr r, w') \<and>
      statusHistory r =
        [\<lparr>se_status = ''community-in-progress'', se_date = 5, se_by = ''GreenCity''\<rparr>,
         \<lparr>se_status = ''solved'', se_date = 9, se_by = ''GreenCity''\<rparr>] \<and>
      map_of (issues w') id0 = Some r"
    by (auto simp: h n g)
  from c i v h s 1 2 3 show ?thesis by blast
qed

section \<open>The NGO update endpoint and the issuesSolved counter\<close>

text \<open>
  What the handler does to the NGO collection, whether or not the issue is saved in the
  end: \<^verbatim>\<open>ngo.save()\<close> runs before \<^verbatim>\<open>issue.save()\<close>.
\<close>

lemma ngo_update_counter:
  assumes "castObjectId iid" and "map_of (issues w) iid = Some i"
    and "nu_ngoEmail b = Some e" and "ngos w e = Some n"
  shows "ngos (snd (ngo_update_issue now iid b w)) =
     (ngos w)(e \<mapsto> n\<lparr>issuesSolved := issuesSolved n +
        (if supplied (nu_status b) = Some ''solved'' \<or> supplied (nu_status b) = Some ''resolved''
         then 1 else 0)\<rparr>)"
  using assms
  by (auto simp: ngo_update_issue_def Issue_findById_def Issue_save_def Let_def
      NGO_findOne_def NGO_save_def fun_upd_idem split: option.splits prod.splits)

text \<open>
  On the path where the call succeeds the counter follows the transition: it grows by
  exactly 1 when the body supplies \<^verbatim>\<open>solved\<close> or \<^verbatim>\<open>resolved\<close>, which
  is then the status of the returned and stored record, and stays as it was otherwise;
  no other NGO document changes.
\<close>

lemma ngo_update_issuesSolved_on_success:
  assumes "map_of (issues w) iid = Some i"
    and "nu_ngoEmail b = Some e" and "ngos w e = Some n"
    and "ngo_update_issue now iid b w = (Inr r, w')"
  shows
    "ngos w' e =
       Some (n\<lparr>issuesSolved := issuesSolved n +
          (if supplied (nu_status b) = Some ''solved'' \<or> supplied (nu_status b) = Some ''resolved''
           then 1 else 0)\<rparr>) \<and>
     (\<forall>e'. e' \<noteq> e \<longrightarrow> ngos w' e' = ngos w e') \<and>
     status r = (case supplied (nu_status b) of None \<Rightarrow> status i | Some s \<Rightarrow> s) \<and>
     map_of (issues w') iid = Some r"
proof -
  from assms(4) obtain i' actor where c: "castObjectId iid"
    and i': "map_of (issues w) iid = Some i'"
    and st: "status r = (case supplied (nu_status b) of None \<Rightarrow> status i' | Some s \<Rightarrow> s)"
    and m: "map_of (issues w') iid = Some r"
    by (rule ngo_update_issue_Inr)
  from assms(4) have w': "w' = snd (ngo_update_issue now iid b w)" by simp
  note k = ngo_update_counter [OF c assms(1,2,3), of now]
  from k w' have "ngos w' e =
       Some (n\<lparr>issuesSolved := issuesSolved n +
          (if supplied (nu_status b) = Some ''solved'' \<or> supplied (nu_status b) = Some ''resolved''
           then 1 else 0)\<rparr>)"
    by simp
  moreover from k w' have "\<forall>e'. e' \<noteq> e \<longrightarrow> ngos w' e' = ngos w e'"
    by simp
  moreover from st i' assms(1)
  have "status r = (case supplied (nu_status b) of None \<Rightarrow> status i | Some s \<Rightarrow> s)"
    by (simp split: option.splits)
  ultimately show ?thesis using m by simp
qed

lemma ngo_update_issuesSolved_example:
  "map_of (issues world1) id0 = Some ngo_claimed0 \<and>
   claimedByNGO ngo_claimed0 = ''GreenCity'' \<and>
   nu_ngoEmail solved_body = Some ''green@city.org'' \<and>
   ngos world1 ''green@city.org'' = Some (greencity\<lparr>issuesClaimed := 1\<rparr>) \<and>
   supplied (nu_status solved_body) = Some ''solved'' \<and>
   fst (ngo_update_issue 9 id0 solved_body world1) =
     Inr (ngo_claimed0
           \<lparr>status := ''solved'',
            statusHistory := statusHistory ngo_claimed0 @
              [\<lparr>se_status = ''solved'', se_date = 9, se_by = ''GreenCity''\<rparr>],
            updates := [\<lparr>up_text = ''Filled'', up_date = 9, up_by = ''GreenCity''\<rparr>]\<rparr>) \<and>
   ngos (snd (ngo_update_issue 9 id0 solved_body world1)) ''green@city.org'' =
     Some (greencity\<lparr>issuesClaimed := 1, issuesSolved := 1\<rparr>) \<and>
   fst (ngo_update_issue 9 id0 (solved_body\<lparr>nu_status := Some ''in-progress''\<rparr>) world1) =
     Inr (ngo_claimed0
           \<lparr>status := ''in-progress'',
            statusHistory := statusHistory ngo_claimed0 @
              [\<lparr>se_status = ''in-progress'', se_date = 9, se_by = ''GreenCity''\<rparr>],
            updates := [\<lparr>up_text = ''Filled'', up_date = 9, up_by = ''GreenCity''\<rparr>]\<rparr>) \<and>
   ngos (snd (ngo_update_issue 9 id0 (solved_body\<lparr>nu_status := Some ''in-progress''\<rparr>) world1))
     ''green@city.org'' = Some (greencity\<lparr>issuesClaimed := 1\<rparr>)"
proof -
  let ?b = "solved_body\<lparr>nu_status := Some ''in-progress''\<rparr>"
  let ?r = "ngo_claimed0
           \<lparr>status := ''solved'',
            statusHistory := statusHistory ngo_claimed0 @
              [\<lparr>se_status = ''solved'', se_date = 9, se_by = ''GreenCity''\<rparr>],
            updates := [\<lparr>up_text = ''Filled'', up_date = 9, up_by = ''GreenCity''\<rparr>]\<rparr>"
  let ?r' = "ngo_claimed0
           \<lparr>status := ''in-progress'',
            statusHistory := statusHistory ngo_claimed0 @
              [\<lparr>se_status = ''in-progress'', se_date = 9, se_by = ''GreenCity''\<rparr>],
            updates := [\<lparr>up_text = ''Filled'', up_date = 9, up_by = ''GreenCity''\<rparr>]\<rparr>"
  have i: "map_of (issues world1) id0 = Some ngo_claimed0"
    by (simp add: world1_def)
  have e: "nu_ngoEmail solved_body = Some ''green@city.org''"
    by (simp add: solved_body_def)
  have e': "nu_ngoEmail ?b = Some ''green@city.org''"
    by (simp add: solved_body_def)
  have n: "ngos world1 ''green@city.org'' = Some (greencity\<lparr>issuesClaimed := 1\<rparr>)"
    by (simp add: world1_def)
  have s: "supplied (nu_status solved_body) = Some ''solved''"
    by (simp add: supplied_def solved_body_def)
  have s': "supplied (nu_status ?b) = Some ''in-progress''"
    by (simp add: supplied_def)
  have z: "issuesSolved greencity = 0" by (simp add: greencity_def)
  have k: "claimedByNGO ngo_claimed0 = ''GreenCity''"
    by (simp add: ngo_claimed0_def claimed0_def)
  have f: "fst (ngo_update_issue 9 id0 solved_body world1) = Inr ?r"
    by (simp add: ngo_update_issue_def Let_def example_defs)
  have f': "fst (ngo_update_issue 9 id0 ?b world1) = Inr ?r'"
    by (simp add: ngo_update_issue_def Let_def example_defs)
  from f have g: "ngo_update_issue 9 id0 solved_body world1 =
      (Inr ?r, snd (ngo_update_issue 9 id0 solved_body world1))"
    by (simp add: prod_eq_iff)
  from f' have g': "ngo_update_issue 9 id0 ?b world1 =
      (Inr ?r', snd (ngo_update_issue 9 id0 ?b world1))"
    by (simp add: prod_eq_iff)
  from ngo_update_issuesSolved_on_success [OF i e n g] s z
  have 1: "ngos (snd (ngo_update_issue 9 id0 solved_body world1)) ''green@city.org'' =
     Some (greencity\<lparr>issuesClaimed := 1, issuesSolved := 1\<rparr>)"
    by simp
  from ngo_update_issuesSolved_on_success [OF i e' n g'] s'
  have 2: "ngos (snd (ngo_update_issue 9 id0 ?b world1)) ''green@city.org'' =
     Some (greencity\<lparr>issuesClaimed := 1\<rparr>)"
    by simp
  from i k e n s f f' 1 2 show ?thesis by simp
qed

lemma put_priority_world1:
  "put_issue id0 (no_patch\<lparr>p_priority := Some ''critical''\<rparr>) world1 = (Inr critical0, world2)"
  by (simp add: put_issue_def apply_patch_def set_field_def no_patch_def world2_def
      critical0_def example_defs)

text \<open>
  C5. The claim says that the NGO update endpoint adds 1 to issuesSolved when and only
  when it moves the claimed issue into \<^verbatim>\<open>solved\<close> or \<^verbatim>\<open>resolved\<close>.
  The handler saves the NGO's counter before it saves the issue. On the claimed issue of
  \<open>world1\<close>, after a PUT has set its priority to \<^verbatim>\<open>critical\<close>, the update
  with status \<^verbatim>\<open>solved\<close> fails in \<^verbatim>\<open>issue.save()\<close>: the stored issue
  stays \<^verbatim>\<open>community-in-progress\<close>, and issuesSolved has gone from 0 to 1.
\<close>

theorem ngo_update_counts_failed_save:
  "put_issue id0 (no_patch\<lparr>p_priority := Some ''critical''\<rparr>) world1 = (Inr critical0, world2) \<and>
   map_of (issues world2) id0 = Some critical0 \<and> status critical0 = ''community-in-progress'' \<and>
   ngos world2 ''green@city.org'' = Some (greencity\<lparr>issuesClaimed := 1\<rparr>) \<and>
   issuesSolved (greencity\<lparr>issuesClaimed := 1\<rparr>) = 0 \<and>
   ngo_update_issue 9 id0 solved_body world2 =
     (Inl ValidationError,
      world2\<lparr>ngos := [''green@city.org'' \<mapsto> greencity\<lparr>issuesClaimed := 1, issuesSolved := 1\<rparr>]\<rparr>) \<and>
   issues (world2\<lparr>ngos := [''green@city.org'' \<mapsto> greencity\<lparr>issuesClaimed := 1, issuesSolved := 1\<rparr>]\<rparr>) =
     [(id0, critical0)]"
  using put_priority_world1
  by (simp add: ngo_update_issue_def Let_def world2_def critical0_def example_defs)

text \<open>
  The handler does not look at the status the issue had: a second update with status
  \<^verbatim>\<open>solved\<close> on the already solved issue counts again.
\<close>

lemma ngo_update_counts_twice:
  "ngos (snd (ngo_update_issue 10 id0 solved_body
                (snd (ngo_update_issue 9 id0 solved_body world1)))) ''green@city.org'' =
     Some (greencity\<lparr>issuesClaimed := 1, issuesSolved := 2\<rparr>)"
  by (simp add: ngo_update_issue_def Let_def example_defs)

text \<open>
  C10. When ngoEmail matches no NGO document, POST /api/ngo/issues/:id/update on an
  existing issue never answers NotFound and changes no NGO document; when it answers with
  a record, the update entry is attributed to the raw ngoEmail (or \<^verbatim>\<open>ngo\<close> when
  the body has none), a supplied status is the record's status and is recorded in
  statusHistory under the same name, and the record is the stored document. It does
  answer with a record whenever the stored issue and the supplied status pass the
  schema's validators.
\<close>

theorem ngo_update_unknown_ngo:
  assumes "castObjectId iid" and "map_of (issues w) iid = Some i"
    and "NGO_findOne (nu_ngoEmail b) w = None"
  shows
    "(\<forall>m. fst (ngo_update_issue now iid b w) \<noteq> Inl (NotFound m)) \<and>
     ngos (snd (ngo_update_issue now iid b w)) = ngos w \<and>
     (\<forall>r w'. ngo_update_issue now iid b w = (Inr r, w') \<longrightarrow>
        updates r = updates i @
          [\<lparr>up_text = str_or (nu_text b) [], up_date = now,
            up_by = str_or (nu_ngoEmail b) ''ngo''\<rparr>] \<and>
        status r = (case supplied (nu_status b) of None \<Rightarrow> status i | Some s \<Rightarrow> s) \<and>
        statusHistory r =
          (case supplied (nu_status b) of
             None \<Rightarrow> statusHistory i
           | Some s \<Rightarrow> statusHistory i @
               [\<lparr>se_status = s, se_date = now, se_by = str_or (nu_ngoEmail b) ''ngo''\<rparr>]) \<and>
        map_of (issues w') iid = Some r) \<and>
     (IssueSchema_valid i \<and>
      (supplied (nu_status b) = None \<or>
       (\<exists>s. supplied (nu_status b) = Some s \<and> s \<in> set status_enum)) \<longrightarrow>
        (\<exists>r w'. ngo_update_issue now iid b w = (Inr r, w')))"
proof (intro conjI allI impI)
  fix m
  from assms(1,2) show "fst (ngo_update_issue now iid b w) \<noteq> Inl (NotFound m)"
    by (auto simp: ngo_update_issue_def Issue_findById_def Issue_save_def Let_def
        split: option.splits prod.splits)
next
  from assms show "ngos (snd (ngo_update_issue now iid b w)) = ngos w"
    by (auto simp: ngo_update_issue_def Issue_findById_def Issue_save_def Let_def
        split: option.splits prod.splits)
next
  fix r w' assume a: "ngo_update_issue now iid b w = (Inr r, w')"
  from a obtain i' actor where i': "map_of (issues w) iid = Some i'"
    and actor: "actor = (case NGO_findOne (nu_ngoEmail b) w of Some n \<Rightarrow> ngo_name n
                  | None \<Rightarrow> str_or (nu_ngoEmail b) ''ngo'')"
    and u: "updates r = updates i' @ [\<lparr>up_text = str_or (nu_text b) [], up_date = now, up_by = actor\<rparr>]"
    and st: "status r = (case supplied (nu_status b) of None \<Rightarrow> status i' | Some s \<Rightarrow> s)"
    and h: "statusHistory r = (case supplied (nu_status b) of None \<Rightarrow> statusHistory i'
           | Some s \<Rightarrow> statusHistory i' @ [\<lparr>se_status = s, se_date = now, se_by = actor\<rparr>])"
    and m: "map_of (issues w') iid = Some r"
    by (rule ngo_update_issue_Inr)
  from i' assms(2) have [simp]: "i' = i" by simp
  from actor assms(3) have [simp]: "actor = str_or (nu_ngoEmail b) ''ngo''" by simp
  from u show "updates r = updates i @
          [\<lparr>up_text = str_or (nu_text b) [], up_date = now,
            up_by = str_or (nu_ngoEmail b) ''ngo''\<rparr>]" by simp
  from st show "status r = (case supplied (nu_status b) of None \<Rightarrow> status i | Some s \<Rightarrow> s)"
    by (simp split: option.splits)
  from h show "statusHistory r =
          (case supplied (nu_status b) of
             None \<Rightarrow> statusHistory i
           | Some s \<Rightarrow> statusHistory i @
               [\<lparr>se_status = s, se_date = now, se_by = str_or (nu_ngoEmail b) ''ngo''\<rparr>])"
    by (simp split: option.splits)
  from m show "map_of (issues w') iid = Some r" .
next
  assume "IssueSchema_valid i \<and>
      (supplied (nu_status b) = None \<or>
       (\<exists>s. supplied (nu_status b) = Some s \<and> s \<in> set status_enum))"
  then have "IssueSchema_valid i"
    and "supplied (nu_status b) = None \<or>
       (\<exists>s. supplied (nu_status b) = Some s \<and> s \<in> set status_enum)"
    by simp_all
  with assms(1,2) show "\<exists>r w'. ngo_update_issue now iid b w = (Inr r, w')"
    by (rule ngo_update_issue_succeeds)
qed

theorem ngo_update_unknown_ngo_witness:
  "castObjectId id0 \<and> map_of (issues world1) id0 = Some ngo_claimed0 \<and>
   NGO_findOne (Some ''ghost@nowhere.org'') world1 = None \<and>
   fst (ngo_update_issue 9 id0
          \<lparr>nu_ngoEmail = Some ''ghost@nowhere.org'', nu_text = None, nu_status = Some ''resolved''\<rparr>
          world1) =
     Inr (ngo_claimed0
           \<lparr>status := ''resolved'',
            statusHistory := statusHistory ngo_claimed0 @
              [\<lparr>se_status = ''resolved'', se_date = 9, se_by = ''ghost@nowhere.org''\<rparr>],
            updates := [\<lparr>up_text = [], up_date = 9, up_by = ''ghost@nowhere.org''\<rparr>]\<rparr>) \<and>
   ngos (snd (ngo_update_issue 9 id0
          \<lparr>nu_ngoEmail = Some ''ghost@nowhere.org'', nu_text = None, nu_status = Some ''resolved''\<rparr>
          world1)) = ngos world1 \<and>
   ngos world1 ''green@city.org'' = Some (greencity\<lparr>issuesClaimed := 1\<rparr>)"
proof -
  let ?b = "\<lparr>nu_ngoEmail = Some ''ghost@nowhere.org'', nu_text = None, nu_status = Some ''resolved''\<rparr>"
  have c: "castObjectId id0" by simp
  have i: "map_of (issues world1) id0 = Some ngo_claimed0"
    by (simp add: world1_def)
  have g: "NGO_findOne (nu_ngoEmail ?b) world1 = None"
    by (simp add: NGO_findOne_def world1_def)
  have f: "fst (ngo_update_issue 9 id0 ?b world1) =
     Inr (ngo_claimed0
           \<lparr>status := ''resolved'',
            statusHistory := statusHistory ngo_claimed0 @
              [\<lparr>se_status = ''resolved'', se_date = 9, se_by = ''ghost@nowhere.org''\<rparr>],
            updates := [\<lparr>up_text = [], up_date = 9, up_by = ''ghost@nowhere.org''\<rparr>]\<rparr>)"
    by (simp add: ngo_update_issue_def Let_def example_defs)
  have n: "ngos world1 ''green@city.org'' = Some (greencity\<lparr>issuesClaimed := 1\<rparr>)"
    by (simp add: world1_def)
  from ngo_update_unknown_ngo [OF c i g, of 9]
  have "ngos (snd (ngo_update_issue 9 id0 ?b world1)) = ngos world1"
    by blast
  with c i g f n show ?thesis by simp
qed

section \<open>The claim invariant\<close>

text \<open>
  Each handler keeps the invariant on every stored issue, provided that a plain claim
  names its NGO and a generic PUT leaves the two claim fields alone. No handler changes
  the name of an NGO.
\<close>

lemma list_all_update:
  "list_all P al \<Longrightarrow> P (k, v) \<Longrightarrow> list_all P (AList.update k v al)"
  by (induction al) auto

lemma list_all_map_of:
  "list_all P al \<Longrightarrow> map_of al k = Some v \<Longrightarrow> P (k, v)"
  by (induction al) (auto split: if_splits)

lemma stored_claim_inv:
  "all_claim_inv w \<Longrightarrow> map_of (issues w) iid = Some i \<Longrightarrow> claim_inv i"
  unfolding all_claim_inv_def by (drule (1) list_all_map_of) simp

lemma all_claim_inv_update:
  "all_claim_inv w \<Longrightarrow> claim_inv i \<Longrightarrow> issues w' = AList.update iid i (issues w) \<Longrightarrow>
   all_claim_inv w'"
  unfolding all_claim_inv_def by (simp add: list_all_update)

lemma all_claim_inv_same:
  "all_claim_inv w \<Longrightarrow> issues w' = issues w \<Longrightarrow> all_claim_inv w'"
  unfolding all_claim_inv_def by simp

lemma create_issue_inv:
  assumes "all_claim_inv w"
  shows "all_claim_inv (snd (create_issue nid now body w))"
  using assms
  by (simp add: create_issue_def Let_def all_claim_inv_def claim_inv_def createPayload_def)

lemma claim_issue_inv:
  assumes "all_claim_inv w" and "ngo \<noteq> []"
  shows "all_claim_inv (snd (claim_issue iid ngo w))"
proof (cases "fst (claim_issue iid ngo w)")
  case (Inl e)
  then have "issues (snd (claim_issue iid ngo w)) = issues w"
    by (auto simp: claim_issue_def Issue_findByIdAndUpdate_def split: option.splits if_splits)
  with assms(1) show ?thesis by (rule all_claim_inv_same)
next
  case (Inr r)
  then have "claim_issue iid ngo w = (Inr r, snd (claim_issue iid ngo w))"
    by (simp add: prod_eq_iff)
  then obtain i where
    r: "r = i\<lparr>claimedByNGO := ngo, claimStatus := ''claimed'', status := ''community-in-progress''\<rparr>"
    and w': "snd (claim_issue iid ngo w) =
       notify_reporter r (''Your report \"'' @ title r @ ''\" was adopted by '' @ ngo)
                (w\<lparr>issues := AList.update iid r (issues w)\<rparr>)"
    by (rule claim_issue_Inr)
  from r assms(2) have "claim_inv r" by (simp add: claim_inv_def)
  with assms(1) show ?thesis
    by (rule all_claim_inv_update) (simp add: w')
qed

lemma ngo_claim_issue_inv:
  assumes "all_claim_inv w" and "ngo_names_ok w"
  shows "all_claim_inv (snd (ngo_claim_issue now iid ngoEmail w))"
proof (cases "fst (ngo_claim_issue now iid ngoEmail w)")
  case (Inl e)
  then have "issues (snd (ngo_claim_issue now iid ngoEmail w)) = issues w"
    by (auto simp: ngo_claim_issue_def Issue_findById_def Issue_save_def Let_def
        split: option.splits if_splits)
  with assms(1) show ?thesis by (rule all_claim_inv_same)
next
  case (Inr r)
  then have "ngo_claim_issue now iid ngoEmail w = (Inr r, snd (ngo_claim_issue now iid ngoEmail w))"
    by (simp add: prod_eq_iff)
  then obtain n i where n: "NGO_findOne ngoEmail w = Some n"
    and r: "r = i\<lparr>claimedByNGO := ngo_name n, claimStatus := ''claimed'',
               status := ''community-in-progress'',
               statusHistory := statusHistory i @
                 [\<lparr>se_status = ''community-in-progress'', se_date = now, se_by = ngo_name n\<rparr>]\<rparr>"
    and w': "snd (ngo_claim_issue now iid ngoEmail w) =
       NGO_save ngoEmail (n\<lparr>issuesClaimed := issuesClaimed n + 1\<rparr>)
                (w\<lparr>issues := AList.update iid r (issues w)\<rparr>)"
    by (rule ngo_claim_issue_Inr)
  from n assms(2) have "ngo_name n \<noteq> []"
    by (auto simp: NGO_findOne_def ngo_names_ok_def split: option.splits)
  with r have "claim_inv r" by (simp add: claim_inv_def)
  with assms(1) show ?thesis
    by (rule all_claim_inv_update) (simp add: w')
qed

lemma ngo_update_issue_inv:
  assumes "all_claim_inv w"
  shows "all_claim_inv (snd (ngo_update_issue now iid b w))"
proof (cases "map_of (issues w) iid")
  case None
  then have "issues (snd (ngo_update_issue now iid b w)) = issues w"
    by (simp add: ngo_update_issue_def Issue_findById_def)
  with assms show ?thesis by (rule all_claim_inv_same)
next
  case (Some i)
  with assms have "claim_inv i" by (rule stored_claim_inv)
  with assms Some show ?thesis
    by (auto simp: ngo_update_issue_def Issue_findById_def Issue_save_def Let_def
        all_claim_inv_def claim_inv_def intro!: list_all_update
        split: option.splits prod.splits)
qed

lemma put_issue_status_inv:
  assumes "all_claim_inv w"
  shows "all_claim_inv (snd (put_issue_status now iid s w))"
proof (cases "map_of (issues w) iid")
  case None
  then have "issues (snd (put_issue_status now iid s w)) = issues w"
    by (simp add: put_issue_status_def Issue_findByIdAndUpdate_def)
  with assms show ?thesis by (rule all_claim_inv_same)
next
  case (Some i)
  with assms have "claim_inv i" by (rule stored_claim_inv)
  with assms Some show ?thesis
    by (auto simp: put_issue_status_def Issue_findByIdAndUpdate_def Issue_save_def Let_def
        all_claim_inv_def claim_inv_def intro!: list_all_update)
qed

lemma add_update_inv:
  assumes "all_claim_inv w"
  shows "all_claim_inv (snd (add_update now iid b w))"
proof (cases "map_of (issues w) iid")
  case None
  then have "issues (snd (add_update now iid b w)) = issues w"
    by (simp add: add_update_def Issue_findById_def Let_def)
  with assms show ?thesis by (rule all_claim_inv_same)
next
  case (Some i)
  with assms have "claim_inv i" by (rule stored_claim_inv)
  with assms Some show ?thesis
    by (auto simp: add_update_def Issue_findById_def Issue_save_def Let_def
        all_claim_inv_def claim_inv_def intro!: list_all_update
        split: option.splits)
qed

lemma put_issue_inv:
  assumes "all_claim_inv w" and "p_claimedByNGO p = None" and "p_claimStatus p = None"
  shows "all_claim_inv (snd (put_issue iid p w))"
proof (cases "map_of (issues w) iid")
  case None
  then have "issues (snd (put_issue iid p w)) = issues w"
    by (simp add: put_issue_def Issue_findByIdAndUpdate_def)
  with assms(1) show ?thesis by (rule all_claim_inv_same)
next
  case (Some i)
  with assms(1) have "claim_inv i" by (rule stored_claim_inv)
  with assms(2,3) have "claim_inv (apply_patch p i)"
    by (simp add: claim_inv_def apply_patch_def set_field_def)
  with assms(1) Some show ?thesis
    by (auto simp: put_issue_def Issue_findByIdAndUpdate_def all_claim_inv_def
        intro!: list_all_update)
qed

lemma exec_ngo_names_ok:
  assumes "ngo_names_ok w"
  shows "ngo_names_ok (exec now r w)"
proof (cases r)
  case (Create nid body)
  with assms show ?thesis by (simp add: create_issue_def Let_def ngo_names_ok_def)
next
  case (Claim iid ngo)
  with assms show ?thesis
    by (simp add: claim_issue_def Issue_findByIdAndUpdate_def ngo_names_ok_def
        split: option.splits)
next
  case (NgoClaim iid ngoEmail)
  with assms show ?thesis
    by (auto simp: ngo_claim_issue_def Issue_findById_def Issue_save_def Let_def
        NGO_findOne_def NGO_save_def ngo_names_ok_def split: option.splits if_splits)
next
  case (NgoUpdate iid b)
  with assms show ?thesis
    by (auto simp: ngo_update_issue_def Issue_findById_def Issue_save_def Let_def
        NGO_findOne_def NGO_save_def ngo_names_ok_def split: option.splits if_splits prod.splits)
next
  case (PutStatus iid s)
  with assms show ?thesis
    by (auto simp: put_issue_status_def Issue_findByIdAndUpdate_def Issue_save_def Let_def
        ngo_names_ok_def split: option.splits)
next
  case (AddUpd iid b)
  with assms show ?thesis
    by (auto simp: add_update_def Issue_findById_def Issue_save_def Let_def
        ngo_names_ok_def split: option.splits)
next
  case (Put iid p)
  with assms show ?thesis
    by (auto simp: put_issue_def Issue_findByIdAndUpdate_def ngo_names_ok_def
        split: option.splits)
qed

lemma exec_claim_inv:
  assumes "all_claim_inv w" and "ngo_names_ok w" and "claim_safe r"
  shows "all_claim_inv (exec now r w)"
  using assms
  by (cases r)
    (simp_all add: create_issue_inv claim_issue_inv ngo_claim_issue_inv ngo_update_issue_inv
      put_issue_status_inv add_update_inv put_issue_inv)

text \<open>
  C7 as stated fails: PUT /api/issues/:id writes whatever fields the body carries. A
  freshly created issue followed by a PUT with body \<^verbatim>\<open>{claimedByNGO: "GreenCity"}\<close>
  has a non-empty claimedByNGO and claimStatus \<^verbatim>\<open>none\<close>.
\<close>

theorem claim_inv_counterexample:
  "\<not> all_claim_inv
       (run [(0, Create id0 body0),
             (1, Put id0 (no_patch\<lparr>p_claimedByNGO := Some ''GreenCity''\<rparr>))] empty_world)"
  by (simp add: create_issue_def createPayload_def body0_def put_issue_def apply_patch_def
      set_field_def no_patch_def empty_world_def all_claim_inv_def claim_inv_def Let_def
      example_defs)

text \<open>
  The plain claim endpoint stores the body's \<^verbatim>\<open>ngo\<close> unchecked, so an empty name
  breaks the invariant the other way round.
\<close>

lemma plain_claim_empty_name_breaks_inv:
  "\<not> all_claim_inv (run [(0, Create id0 body0), (1, Claim id0 [])] empty_world)"
  by (simp add: create_issue_def createPayload_def body0_def claim_issue_def
      empty_world_def all_claim_inv_def claim_inv_def Let_def example_defs)

text \<open>
  C7, amended. From a store in which the invariant holds (the empty store, for one) and
  every NGO has a name, every sequence of create, NGO-scoped claim, status change,
  add-update and NGO update requests, of plain claims that name a non-empty NGO, and of
  generic PUT requests whose body carries neither claimedByNGO nor claimStatus, leads to
  a store in which claimedByNGO is non-empty if and only if claimStatus is not
  \<^verbatim>\<open>none\<close>, for every issue.
\<close>

theorem claim_inv_preserved:
  assumes "all_claim_inv w" and "ngo_names_ok w"
    and "list_all (\<lambda>tr. claim_safe (snd tr)) rs"
  shows "all_claim_inv (run rs w)"
  using assms
proof (induction rs arbitrary: w)
  case Nil
  then show ?case by simp
next
  case (Cons tr rs)
  obtain now r where tr: "tr = (now, r)" by (cases tr)
  from Cons.prems tr have "all_claim_inv (exec now r w)" and "ngo_names_ok (exec now r w)"
    by (simp_all add: exec_claim_inv exec_ngo_names_ok)
  with Cons.prems tr show ?case
    by (simp add: Cons.IH)
qed



theorem claim_inv_preserved_witness:
  "all_claim_inv (world0\<lparr>issues := []\<rparr>) \<and> ngo_names_ok (world0\<lparr>issues := []\<rparr>) \<and>
   list_all (\<lambda>tr. claim_safe (snd tr)) lifecycle \<and>
   all_claim_inv (run lifecycle (world0\<lparr>issues := []\<rparr>)) \<and>
   map (\<lambda>kv. (claimedByNGO (snd kv), claimStatus (snd kv), status (snd kv)))
     (issues (run lifecycle (world0\<lparr>issues := []\<rparr>))) =
     [(''GreenCity'', ''claimed'', ''solved'')]"
proof -
  have a: "all_claim_inv (world0\<lparr>issues := []\<rparr>)"
    by (simp add: all_claim_inv_def)
  have b: "ngo_names_ok (world0\<lparr>issues := []\<rparr>)"
    by (simp add: ngo_names_ok_def world0_def greencity_def)
  have c: "list_all (\<lambda>tr. claim_safe (snd tr)) lifecycle"
    by (simp add: lifecycle_def)
  have d: "map (\<lambda>kv. (claimedByNGO (snd kv), claimStatus (snd kv), status (snd kv)))
     (issues (run lifecycle (world0\<lparr>issues := []\<rparr>))) =
     [(''GreenCity'', ''claimed'', ''solved'')]"
    by (simp add: lifecycle_def create_issue_def createPayload_def body0_def
        put_issue_status_def ngo_claim_issue_def ngo_update_issue_def Let_def example_defs)
  from claim_inv_preserved [OF a b c] a b c d show ?thesis by simp
qed

section \<open>Creation\<close>

text \<open>
  C8 as stated fails: the create handler takes status, statusHistory and updates from the
  body when the body carries them. A body with status \<^verbatim>\<open>resolved\<close> and a
  one-entry history is accepted and creates exactly that.
\<close>

theorem create_issue_counterexample:
  "create_issue id0 0 resolved_body empty_world =
     (Inr created_resolved, empty_world\<lparr>issues := [(id0, created_resolved)]\<rparr>) \<and>
   status created_resolved = ''resolved'' \<and>
   statusHistory created_resolved = [\<lparr>se_status = ''resolved'', se_date = 0, se_by = ''me''\<rparr>]"
  by (simp add: create_issue_def createPayload_def resolved_body_def body0_def Let_def
      created_resolved_def empty_world_def example_defs)

text \<open>
  C8, amended. For every body the create handler accepts, the created issue has status
  \<^verbatim>\<open>pending\<close> when the body carries no status (or an empty one) and the body's
  status otherwise; its statusHistory and its updates are empty when the body carries
  none and are the body's otherwise. The created issue is appended to the collection.
\<close>

theorem create_issue_defaults:
  "create_issue nid now body w = (Inr r, w') \<longrightarrow>
     (supplied (b_status body) = None \<longrightarrow> status r = ''pending'') \<and>
     (\<forall>s. supplied (b_status body) = Some s \<longrightarrow> status r = s) \<and>
     (b_statusHistory body = None \<longrightarrow> statusHistory r = []) \<and>
     (\<forall>h. b_statusHistory body = Some h \<longrightarrow> statusHistory r = h) \<and>
     (b_updates body = None \<longrightarrow> updates r = []) \<and>
     (\<forall>u. b_updates body = Some u \<longrightarrow> updates r = u) \<and>
     issues w' = issues w @ [(nid, r)]"
  by (auto simp: create_issue_def Let_def createPayload_def str_or_def split: if_splits)

theorem create_issue_defaults_witness:
  "create_issue id0 0 body0 empty_world =
     (Inr (issue0\<lparr>category := ''other'', reportedBy := ''anonymous''\<rparr>),
      empty_world\<lparr>issues := [(id0, issue0\<lparr>category := ''other'', reportedBy := ''anonymous''\<rparr>)]\<rparr>) \<and>
   supplied (b_status body0) = None \<and> b_statusHistory body0 = None \<and> b_updates body0 = None \<and>
   status (issue0\<lparr>category := ''other'', reportedBy := ''anonymous''\<rparr>) = ''pending'' \<and>
   statusHistory (issue0\<lparr>category := ''other'', reportedBy := ''anonymous''\<rparr>) = [] \<and>
   updates (issue0\<lparr>category := ''other'', reportedBy := ''anonymous''\<rparr>) = []"
proof -
  let ?r = "issue0\<lparr>category := ''other'', reportedBy := ''anonymous''\<rparr>"
  have e: "create_issue id0 0 body0 empty_world =
     (Inr ?r, empty_world\<lparr>issues := [(id0, ?r)]\<rparr>)"
    by (simp add: create_issue_def createPayload_def body0_def empty_world_def Let_def
        example_defs)
  have s: "supplied (b_status body0) = None" "b_statusHistory body0 = None"
    "b_updates body0 = None"
    by (simp_all add: body0_def supplied_def)
  from create_issue_defaults [of id0 0 body0 empty_world ?r "empty_world\<lparr>issues := [(id0, ?r)]\<rparr>"]
    e s
  show ?thesis by simp
qed

end
